theory Spec2Isabelle
  imports
    Complex_Main
    "HOL-Library.Char_ord"
    "HOL-Library.List_Lexorder"
    "HOL-Library.Product_Lexorder"
begin

section \<open>The DAN guesser (dan\_guesser.py): data model\<close>

text \<open>
  The development follows \<^verbatim>\<open>src/dan copy/dan_guesser.py\<close>. Tensors are lists
  (a 1-D tensor is a list, a 2-D tensor a list of rows), Python exceptions are values of
  \<open>error\<close>, and a function that can raise returns \<open>error + 'a\<close> with \<open>Inl\<close> the
  exception. Floating-point numbers are modelled by the reals.
\<close>

datatype error =
    AssertionError string
  | NameError string
  | AttributeError string
  | IndexError
  | KeyError string
  | ValueError
  | RuntimeError
  | ZeroDivisionError
  | FileNotFoundError
  | TypeError

type_synonym vec = "real list"
type_synonym matrix = "real list list"

text \<open>Python list indexing \<^verbatim>\<open>xs[i]\<close>: a negative index counts from the end, an index
  out of range raises IndexError.\<close>

definition py_getitem :: "'a list \<Rightarrow> int \<Rightarrow> error + 'a" where
  "py_getitem xs i =
     (if 0 \<le> i \<and> i < int (length xs) then Inr (xs ! nat i)
      else if i < 0 \<and> - int (length xs) \<le> i then Inr (xs ! nat (int (length xs) + i))
      else Inl IndexError)"

text \<open>\<^verbatim>\<open>xs.index(x)\<close>: the position of the first occurrence, ValueError when absent.\<close>

fun py_index :: "'a list \<Rightarrow> 'a \<Rightarrow> error + nat" where
  "py_index [] x = Inl ValueError"
| "py_index (y # ys) x =
     (if y = x then Inr 0
      else case py_index ys x of Inl e \<Rightarrow> Inl e | Inr i \<Rightarrow> Inr (Suc i))"

text \<open>Evaluating a list of computations in order: the first exception propagates.\<close>

fun sequence_err :: "(error + 'a) list \<Rightarrow> error + 'a list" where
  "sequence_err [] = Inr []"
| "sequence_err (c # cs) =
     (case c of
        Inl e \<Rightarrow> Inl e
      | Inr x \<Rightarrow> (case sequence_err cs of Inl e \<Rightarrow> Inl e | Inr xs \<Rightarrow> Inr (x # xs)))"

text \<open>The builtin \<^verbatim>\<open>max\<close> over a generator: ValueError on an empty sequence.\<close>

definition py_max :: "nat list \<Rightarrow> error + nat" where
  "py_max xs = (if xs = [] then Inl ValueError else Inr (fold max xs 0))"

subsection \<open>Example\<close>

text \<open>
  \<^verbatim>\<open>Example.tokens\<close> is the 1-D tensor \<^verbatim>\<open>vectorize(...)[0]\<close>;
  \<^verbatim>\<open>positive\<close> and \<^verbatim>\<open>negative\<close> are either None or the 2-D tensor
  \<^verbatim>\<open>vectorize(...)\<close> of shape (1, n), as \<^verbatim>\<open>QuestionData.__getitem__\<close>
  builds them. \<^verbatim>\<open>len\<close> of a tensor is the size of its first dimension.
\<close>

record Example =
  tokens :: "nat list"
  answer :: string
  positive :: "nat list list option"
  negative :: "nat list list option"

definition longest_example_length :: "Example \<Rightarrow> error + nat" where
  "longest_example_length self =
     (let max_length =
            fold (\<lambda>token_ids m. case token_ids of None \<Rightarrow> m | Some n \<Rightarrow> max n m)
              [Some (length (tokens self)),
               map_option length (positive self),
               map_option length (negative self)] 0
      in if max_length > 0 then Inr max_length else Inl (AssertionError ''''))"

subsection \<open>Batch assembly\<close>

text \<open>\<^verbatim>\<open>torch.LongTensor(rows, cols).zero_()\<close>.\<close>

definition zeros_matrix :: "nat \<Rightarrow> nat \<Rightarrow> nat list list" where
  "zeros_matrix num_rows num_cols = replicate num_rows (replicate num_cols 0)"

text \<open>
  \<^verbatim>\<open>matrix[idx, :n].copy_(src)\<close>: the slice has \<open>min n cols\<close> entries, and
  \<^verbatim>\<open>copy_\<close> raises RuntimeError unless the source can be broadcast to the slice.
  The source here always has \<open>n\<close> entries, so the copy succeeds exactly when the slice
  has as many (a one-element source is broadcast to the slice, which then has one entry
  as well, the width being positive).
\<close>

definition slice_copy :: "nat list list \<Rightarrow> nat \<Rightarrow> nat \<Rightarrow> nat list \<Rightarrow> error + nat list list" where
  "slice_copy m idx n src =
     (let row = m ! idx; dest = take n row
      in if length dest = length src then Inr (m[idx := src @ drop n row])
         else if length src = 1 \<and> dest \<noteq> [] then
           Inr (m[idx := replicate (length dest) (hd src) @ drop n row])
         else Inl RuntimeError)"

record q_batch =
  question_text :: "nat list list"
  question_len :: "nat list"
  answers :: "string list"
  ex_indices :: "nat list"

text \<open>The loop of \<^verbatim>\<open>batchify_examples_only\<close> over \<^verbatim>\<open>enumerate(batch)\<close>.\<close>

fun examples_only_loop :: "(nat \<times> Example) list \<Rightarrow> q_batch \<Rightarrow> error + q_batch" where
  "examples_only_loop [] b = Inr b"
| "examples_only_loop ((idx, ex) # rest) b =
     (let n = length (tokens ex);
          question_lengths = (question_len b)[idx := n];
          vector_to_copy = tokens ex
      in if length (take n (question_text b ! idx)) \<noteq> length vector_to_copy
         then Inl (AssertionError ''Mismatch in copying'')
         else case slice_copy (question_text b) idx n vector_to_copy of
                Inl e \<Rightarrow> Inl e
              | Inr question_matrix \<Rightarrow>
                  examples_only_loop rest
                    (b\<lparr>question_text := question_matrix,
                       question_len := question_lengths,
                       answers := answers b @ [answer ex],
                       ex_indices := ex_indices b @ [idx]\<rparr>))"

definition batchify_examples_only :: "Example list \<Rightarrow> error + q_batch" where
  "batchify_examples_only batch =
     (let num_examples = length batch
      in case sequence_err (map longest_example_length batch) of
           Inl e \<Rightarrow> Inl e
         | Inr ls \<Rightarrow>
            (case py_max ls of
               Inl e \<Rightarrow> Inl e
             | Inr max_length \<Rightarrow>
                 examples_only_loop (enumerate 0 batch)
                   \<lparr>question_text = zeros_matrix num_examples max_length,
                    question_len = replicate (length batch) 0,
                    answers = [],
                    ex_indices = []\<rparr>))"

record contrastive_batch =
  q_part :: q_batch
  pos_text :: "nat list list"
  pos_len :: "nat list"
  neg_text :: "nat list list"
  neg_len :: "nat list"

text \<open>\<^verbatim>\<open>ex.positive[0] if ex.positive is not None else []\<close>: the first row of the 2-D
  tensor; indexing a tensor without rows raises IndexError.\<close>

definition first_row :: "nat list list option \<Rightarrow> error + nat list" where
  "first_row t = (case t of None \<Rightarrow> Inr [] | Some rows \<Rightarrow> py_getitem rows 0)"

fun contrastive_loop ::
  "(nat \<times> Example) list \<Rightarrow> contrastive_batch \<Rightarrow> error + contrastive_batch" where
  "contrastive_loop [] b = Inr b"
| "contrastive_loop ((idx, ex) # rest) b =
     (case first_row (positive ex) of
        Inl e \<Rightarrow> Inl e
      | Inr pos \<Rightarrow>
     (case first_row (negative ex) of
        Inl e \<Rightarrow> Inl e
      | Inr neg \<Rightarrow>
     (let pos_lengths = (pos_len b)[idx := length pos];
          neg_lengths = (neg_len b)[idx := length neg]
      in case (if length pos > 0 then slice_copy (pos_text b) idx (length pos) pos
               else Inr (pos_text b)) of
           Inl e \<Rightarrow> Inl e
         | Inr positive_matrix \<Rightarrow>
        (case (if length neg > 0 then slice_copy (neg_text b) idx (length neg) neg
               else Inr (neg_text b)) of
           Inl e \<Rightarrow> Inl e
         | Inr negative_matrix \<Rightarrow>
             contrastive_loop rest
               (b\<lparr>pos_text := positive_matrix, pos_len := pos_lengths,
                  neg_text := negative_matrix, neg_len := neg_lengths\<rparr>)))))"

definition batchify_with_contrastive :: "Example list \<Rightarrow> error + contrastive_batch" where
  "batchify_with_contrastive batch =
     (case batchify_examples_only batch of
        Inl e \<Rightarrow> Inl e
      | Inr qb \<Rightarrow>
          (let num_examples = length batch
           in case sequence_err (map longest_example_length batch) of
                Inl e \<Rightarrow> Inl e
              | Inr ls \<Rightarrow>
                 (case py_max ls of
                    Inl e \<Rightarrow> Inl e
                  | Inr max_length \<Rightarrow>
                      contrastive_loop (enumerate 0 batch)
                        \<lparr>q_part = qb,
                         pos_text = zeros_matrix num_examples max_length,
                         pos_len = replicate (length batch) 0,
                         neg_text = zeros_matrix num_examples max_length,
                         neg_len = replicate (length batch) 0\<rparr>)))"

subsection \<open>Padded rows\<close>

text \<open>
  The quantities the batch properties are stated with: the value
  \<^verbatim>\<open>longest_example_length\<close> computes before its assertion, the width of the batch
  matrices, and a row of token ids right-padded with the id 0 up to a width.
\<close>

definition raw_longest :: "Example \<Rightarrow> nat" where
  "raw_longest ex =
     max (case negative ex of None \<Rightarrow> 0 | Some t \<Rightarrow> length t)
       (max (case positive ex of None \<Rightarrow> 0 | Some t \<Rightarrow> length t) (length (tokens ex)))"

definition batch_width :: "Example list \<Rightarrow> nat" where
  "batch_width batch = fold max (map raw_longest batch) 0"

definition pad_row :: "nat \<Rightarrow> nat list \<Rightarrow> nat list" where
  "pad_row w ts = ts @ replicate (w - length ts) 0"

section \<open>The encoder: DanModel\<close>

subsection \<open>Loss criteria\<close>

text \<open>
  The criterion object is built by \<^verbatim>\<open>getattr(nn, name)()\<close>, that is with the default
  arguments of the class: \<^verbatim>\<open>nn.MarginRankingLoss()\<close> has \<^verbatim>\<open>margin = 0.0\<close> and
  mean reduction. The margin is kept as data of the criterion, since
  \<^verbatim>\<open>DanModel.__init__\<close> and \<^verbatim>\<open>DanGuesser.set_model\<close> accept any criterion object.
  Any other class of \<^verbatim>\<open>torch.nn\<close> is \<open>OtherLoss\<close>.
\<close>

datatype criterion = MarginRankingLoss real | CrossEntropyLoss | OtherLoss string

fun criterion_name :: "criterion \<Rightarrow> string" where
  "criterion_name (MarginRankingLoss m) = ''MarginRankingLoss''"
| "criterion_name CrossEntropyLoss = ''CrossEntropyLoss''"
| "criterion_name (OtherLoss n) = n"

definition nn_getattr_call :: "string \<Rightarrow> criterion" where
  "nn_getattr_call name =
     (if name = ''MarginRankingLoss'' then MarginRankingLoss 0
      else if name = ''CrossEntropyLoss'' then CrossEntropyLoss
      else OtherLoss name)"

subsection \<open>Name resolution inside a method\<close>

text \<open>
  A name read in a method body that is neither a parameter nor a local variable is
  looked up among the globals of the module (and then the builtins); a name bound
  nowhere raises NameError. The values that matter here are integers and strings; any
  other object (a module, a class, a function) is \<open>PyObject\<close>.
\<close>

datatype py_value = PyInt int | PyStr string | PyObject string

text \<open>
  The names bound at the top level of \<^verbatim>\<open>dan_guesser.py\<close>: its imports, the two string
  constants, its classes and functions, and the names bound under the
  \<^verbatim>\<open>__main__\<close> guard.
\<close>

definition module_globals :: "string \<rightharpoonup> py_value" where
  "module_globals =
     map_of
      ([(''kUNK'', PyStr ''<unk>''), (''kPAD'', PyStr ''<pad>'')] @
       map (\<lambda>n. (n, PyObject n))
        [''argparse'', ''logging'', ''pickle'', ''json'', ''time'', ''os'',
         ''List'', ''Dict'', ''Iterable'', ''Optional'', ''Tuple'', ''NamedTuple'',
         ''Callable'', ''Counter'', ''defaultdict'', ''random'', ''np'', ''nltk'', ''tqdm'',
         ''torch'', ''nn'', ''Tensor'', ''Dataset'', ''DataLoader'', ''clip_grad_norm_'',
         ''_Loss'', ''Guesser'', ''GuesserParameters'', ''rough_compare'', ''Parameters'',
         ''DanParameters'', ''Vocab'', ''ttos'', ''DanPlotter'', ''Example'', ''DanModel'',
         ''QuestionData'', ''DanGuesser'', ''number_errors'', ''evaluate'',
         ''load_questions'', ''add_guesser_params'', ''add_general_params'',
         ''add_question_params'', ''setup_logging'', ''instantiate_guesser'', ''parser'',
         ''guesser_params'', ''flags'', ''cuda'', ''train_exs'', ''dev_exs'', ''guesser''])"

subsection \<open>The model object\<close>

record DanModel =
  vocab_size :: nat
  emb_dim :: nat
  n_hidden_units :: nat
  nn_dropout :: real
  criterion :: criterion
  num_answers :: int
  embeddings :: matrix
  linear1_weight :: matrix
  linear1_bias :: vec
  linear2_weight :: matrix
  linear2_bias :: vec
  training :: bool

text \<open>
  The random initial values of the parameters, as functions of the position. A tensor of
  a given shape is read off such a function, so that every tensor has the shape its
  layer declares.
\<close>

record init_values =
  emb_init :: "nat \<Rightarrow> nat \<Rightarrow> real"
  w1_init :: "nat \<Rightarrow> nat \<Rightarrow> real"
  b1_init :: "nat \<Rightarrow> real"
  w2_init :: "nat \<Rightarrow> nat \<Rightarrow> real"
  b2_init :: "nat \<Rightarrow> real"

definition tensor_of :: "nat \<Rightarrow> nat \<Rightarrow> (nat \<Rightarrow> nat \<Rightarrow> real) \<Rightarrow> matrix" where
  "tensor_of num_rows num_cols g = map (\<lambda>i. map (g i) [0..<num_cols]) [0..<num_rows]"

definition eye :: "nat \<Rightarrow> matrix" where
  "eye n = tensor_of n n (\<lambda>i j. if i = j then 1 else 0)"

definition zeros :: "nat \<Rightarrow> vec" where
  "zeros n = replicate n 0"

text \<open>
  \<^verbatim>\<open>nn.Embedding(num_embeddings, embedding_dim, padding_idx)\<close>: the weight is drawn at
  random and the row at \<^verbatim>\<open>padding_idx\<close> is set to zero; a padding index outside the
  table is refused.
\<close>

definition nn_Embedding :: "nat \<Rightarrow> nat \<Rightarrow> nat \<Rightarrow> (nat \<Rightarrow> nat \<Rightarrow> real) \<Rightarrow> error + matrix" where
  "nn_Embedding num_embeddings embedding_dim padding_idx g =
     (if padding_idx < num_embeddings
      then Inr ((tensor_of num_embeddings embedding_dim g)[padding_idx := zeros embedding_dim])
      else Inl (AssertionError ''Padding_idx must be within num_embeddings''))"

text \<open>The shapes of two tensors agree (the condition of \<^verbatim>\<open>copy_\<close> between tensors of
  the same rank, broadcasting aside).\<close>

definition same_shape :: "matrix \<Rightarrow> matrix \<Rightarrow> bool" where
  "same_shape a b = (map length a = map length b)"

text \<open>
  \<^verbatim>\<open>initialize_parameters\<close> reads \<^verbatim>\<open>emb_dim\<close>, \<^verbatim>\<open>n_hidden_units\<close>,
  \<^verbatim>\<open>loss\<close> and \<^verbatim>\<open>n_answers\<close> as bare names: they are parameters of
  \<^verbatim>\<open>__init__\<close>, not of this method, so they are looked up in \<open>globals\<close>.
\<close>

definition initialize_parameters ::
  "(string \<rightharpoonup> py_value) \<Rightarrow> DanModel \<Rightarrow> string \<Rightarrow> error + DanModel" where
  "initialize_parameters globals self initialization =
     (if initialization = ''identity'' then
        (case globals ''emb_dim'' of
           None \<Rightarrow> Inl (NameError ''emb_dim'')
         | Some emb_dim_v \<Rightarrow>
        (case globals ''n_hidden_units'' of
           None \<Rightarrow> Inl (NameError ''n_hidden_units'')
         | Some n_hidden_v \<Rightarrow>
            if emb_dim_v \<noteq> n_hidden_v
            then Inl (AssertionError
              ''Cannot initialize to identiy matrix if embedding dimension is not hidden dimension'')
            else
        (case globals ''loss'' of
           None \<Rightarrow> Inl (NameError ''loss'')
         | Some loss_v \<Rightarrow>
        (case (if loss_v = PyStr ''cross_entropy'' then
                 (case globals ''n_answers'' of
                    None \<Rightarrow> Inl (NameError ''n_answers'')
                  | Some n_answers_v \<Rightarrow>
                      if n_hidden_v \<noteq> n_answers_v
                      then Inl (AssertionError
                        ''Cannot initialize to identity matrix if hidden dimension doesn't match the number of answers'')
                      else Inr ())
               else Inr ()) of
           Inl e \<Rightarrow> Inl e
         | Inr u \<Rightarrow>
        (case n_hidden_v of
           PyInt n \<Rightarrow>
             if n < 0 then Inl RuntimeError
             else if \<not> same_shape (linear1_weight self) (eye (nat n)) then Inl RuntimeError
             else if \<not> same_shape (linear2_weight self) (eye (nat n)) then Inl RuntimeError
             else if length (linear1_bias self) \<noteq> nat n then Inl RuntimeError
             else if length (linear2_bias self) \<noteq> nat n then Inl RuntimeError
             else Inr (self\<lparr>linear1_weight := eye (nat n), linear2_weight := eye (nat n),
                          linear1_bias := zeros (nat n), linear2_bias := zeros (nat n)\<rparr>)
         | PyStr s \<Rightarrow> Inl TypeError
         | PyObject s \<Rightarrow> Inl TypeError)))))
      else Inr self)"

text \<open>
  \<^verbatim>\<open>DanModel.__init__\<close>. The second linear layer exists only for the two criteria
  the constructor knows; for any other criterion building \<^verbatim>\<open>nn.Sequential\<close> reads
  the missing attribute \<^verbatim>\<open>self.linear2\<close>. A negative number of output features is
  refused by \<^verbatim>\<open>nn.Linear\<close>.
\<close>

definition DanModel_init ::
  "(string \<rightharpoonup> py_value) \<Rightarrow> init_values \<Rightarrow> criterion \<Rightarrow> nat \<Rightarrow> int \<Rightarrow> nat \<Rightarrow> nat \<Rightarrow> real
     \<Rightarrow> string \<Rightarrow> error + DanModel" where
  "DanModel_init globals rnd crit vocab_sz n_answers emb n_hidden dropout initialization =
     (case nn_Embedding vocab_sz emb 0 (emb_init rnd) of
        Inl e \<Rightarrow> Inl e
      | Inr emb_weight \<Rightarrow>
     (case (if criterion_name crit = ''MarginRankingLoss'' then Inr (n_hidden, - 1)
            else if criterion_name crit = ''CrossEntropyLoss'' then
              (if n_answers < 0 then Inl RuntimeError else Inr (nat n_answers, n_answers))
            else Inl (AttributeError ''linear2'')) of
        Inl e \<Rightarrow> Inl e
      | Inr (out_features, n_ans) \<Rightarrow>
          initialize_parameters globals
            \<lparr>vocab_size = vocab_sz, emb_dim = emb, n_hidden_units = n_hidden,
             nn_dropout = dropout, criterion = crit, num_answers = n_ans,
             embeddings = emb_weight,
             linear1_weight = tensor_of n_hidden emb (w1_init rnd),
             linear1_bias = map (b1_init rnd) [0..<n_hidden],
             linear2_weight = tensor_of out_features n_hidden (w2_init rnd),
             linear2_bias = map (b2_init rnd) [0..<out_features],
             training = True\<rparr>
            initialization))"

subsection \<open>Pooling and the forward pass\<close>

text \<open>Broadcasting of two tensors along their first dimension: the sizes must be equal,
  or one of them 1.\<close>

definition broadcast2 :: "'a list \<Rightarrow> 'b list \<Rightarrow> error + ('a \<times> 'b) list" where
  "broadcast2 xs ys =
     (if length xs = length ys then Inr (zip xs ys)
      else if length xs = 1 then Inr (map (\<lambda>y. (hd xs, y)) ys)
      else if length ys = 1 then Inr (map (\<lambda>x. (x, hd ys)) xs)
      else Inl RuntimeError)"

text \<open>\<^verbatim>\<open>torch.sum(text_embeddings, dim=1)\<close> for one sequence of \<open>d\<close>-dimensional
  vectors: the sum over all its positions.\<close>

definition vsum :: "nat \<Rightarrow> vec list \<Rightarrow> vec" where
  "vsum d vs = foldr (map2 (+)) vs (zeros d)"

definition average :: "DanModel \<Rightarrow> vec list list \<Rightarrow> nat list \<Rightarrow> error + matrix" where
  "average self text_embeddings text_len =
     (let summed = map (vsum (emb_dim self)) text_embeddings;
          lengths = map (\<lambda>n. max (real n) 1) text_len
      in case broadcast2 summed lengths of
           Inl e \<Rightarrow> Inl e
         | Inr pairs \<Rightarrow> Inr (map (\<lambda>(s, l). map (\<lambda>x. x / l) s) pairs))"

text \<open>The embedding lookup \<^verbatim>\<open>self.embeddings(input_text)\<close>: an id outside the table
  raises IndexError.\<close>

definition embedding_row :: "matrix \<Rightarrow> nat \<Rightarrow> error + vec" where
  "embedding_row w i = (if i < length w then Inr (w ! i) else Inl IndexError)"

definition embedding :: "matrix \<Rightarrow> nat list list \<Rightarrow> error + vec list list" where
  "embedding w input_text =
     sequence_err (map (\<lambda>row. sequence_err (map (embedding_row w) row)) input_text)"

definition dot :: "vec \<Rightarrow> vec \<Rightarrow> real" where
  "dot a b = sum_list (map2 (*) a b)"

text \<open>\<^verbatim>\<open>nn.Linear\<close> applied to one vector; a vector of the wrong width raises.\<close>

definition nn_Linear :: "nat \<Rightarrow> matrix \<Rightarrow> vec \<Rightarrow> vec \<Rightarrow> error + vec" where
  "nn_Linear in_features w b x =
     (if length x = in_features then Inr (map2 (\<lambda>row bi. dot row x + bi) w b)
      else Inl RuntimeError)"

definition ReLU :: "vec \<Rightarrow> vec" where
  "ReLU x = map (max 0) x"

text \<open>
  \<^verbatim>\<open>nn.Dropout(p)\<close>: the identity in evaluation mode; in training mode each unit is
  kept or zeroed at random (\<open>keep\<close> is the draw) and the kept ones are scaled by
  \<open>1 / (1 - p)\<close>.
\<close>

definition Dropout :: "DanModel \<Rightarrow> (nat \<Rightarrow> bool) \<Rightarrow> vec \<Rightarrow> vec" where
  "Dropout self keep x =
     (if training self
      then map (\<lambda>(i, v). if keep i then v / (1 - nn_dropout self) else 0) (enumerate 0 x)
      else x)"

definition network :: "DanModel \<Rightarrow> (nat \<Rightarrow> bool) \<Rightarrow> vec \<Rightarrow> error + vec" where
  "network self keep x =
     (case nn_Linear (emb_dim self) (linear1_weight self) (linear1_bias self) x of
        Inl e \<Rightarrow> Inl e
      | Inr h \<Rightarrow>
          nn_Linear (n_hidden_units self) (linear2_weight self) (linear2_bias self)
            (Dropout self keep (ReLU h)))"

text \<open>\<^verbatim>\<open>DanModel.forward\<close>; \<open>keep\<close> gives the dropout draw of each batch row.\<close>

definition forward ::
  "DanModel \<Rightarrow> (nat \<Rightarrow> nat \<Rightarrow> bool) \<Rightarrow> nat list list \<Rightarrow> nat list \<Rightarrow> error + matrix" where
  "forward self keep input_text text_len =
     (case embedding (embeddings self) input_text of
        Inl e \<Rightarrow> Inl e
      | Inr embedded \<Rightarrow>
     (case average self embedded text_len of
        Inl e \<Rightarrow> Inl e
      | Inr averaged \<Rightarrow>
          sequence_err (map (\<lambda>(i, a). network self (keep i) a) (enumerate 0 averaged))))"

text \<open>\<^verbatim>\<open>model.eval()\<close> and \<^verbatim>\<open>model.train()\<close>.\<close>

definition eval_mode :: "DanModel \<Rightarrow> DanModel" where
  "eval_mode self = self\<lparr>training := False\<rparr>"

definition train_mode :: "DanModel \<Rightarrow> DanModel" where
  "train_mode self = self\<lparr>training := True\<rparr>"

section \<open>The data set: QuestionData\<close>

subsection \<open>Vocabulary\<close>

text \<open>
  Modelled from the spec: the class \<^verbatim>\<open>Vocab\<close> (module \<^verbatim>\<open>vocab\<close>) is not among the
  sources; only its calls in \<^verbatim>\<open>build_vocab\<close> and \<^verbatim>\<open>vectorize\<close> are. The spec
  describes it as a bounded mapping between tokens and integer ids with a reserved
  unknown-token id to which every unknown token maps. The model: the ids are the
  positions in the list \<open>itos\<close>; \<^verbatim>\<open>build_vocab_from_iterator\<close> gives the special
  tokens the first ids, followed by the tokens of the text in order of first occurrence,
  cut to \<^verbatim>\<open>max_tokens\<close> entries (a negative bound is no bound, as the assertion in
  \<^verbatim>\<open>build_vocab\<close> reads it); \<^verbatim>\<open>vocab[token]\<close> is the id of a known token and
  the default index otherwise, an error when no default is set. The effect of
  \<^verbatim>\<open>vocab_cutoff\<close> is not described; the call passes 0 and the model keeps every
  token.
\<close>

record Vocab =
  itos :: "string list"
  default_index :: "nat option"

definition build_vocab_from_iterator :: "string list list \<Rightarrow> string list \<Rightarrow> int \<Rightarrow> Vocab" where
  "build_vocab_from_iterator iterator specials max_tokens =
     (let every = specials @ rev (remdups (rev
                    (filter (\<lambda>t. t \<notin> set specials) (concat iterator))))
      in \<lparr>itos = (if max_tokens < 0 then every else take (nat max_tokens) every),
          default_index = None\<rparr>)"

definition vocab_getitem :: "Vocab \<Rightarrow> string \<Rightarrow> error + nat" where
  "vocab_getitem v token =
     (case py_index (itos v) token of
        Inr i \<Rightarrow> Inr i
      | Inl e \<Rightarrow> (case default_index v of None \<Rightarrow> Inl RuntimeError | Some d \<Rightarrow> Inr d))"

definition set_default_index :: "Vocab \<Rightarrow> nat \<Rightarrow> Vocab" where
  "set_default_index v i = v\<lparr>default_index := Some i\<rparr>"

subsection \<open>The nearest-neighbour index\<close>

text \<open>
  \<^verbatim>\<open>faiss.IndexFlatL2(d)\<close>: the stored rows and their dimension. \<^verbatim>\<open>add\<close> and
  \<^verbatim>\<open>search\<close> assert that the vectors have dimension \<open>d\<close>. \<^verbatim>\<open>search(x, k)\<close>
  returns for each query the positions of the \<open>k\<close> stored rows of least squared
  Euclidean distance, nearest first; when fewer than \<open>k\<close> rows are stored the
  remaining places hold -1. Rows at equal distance are listed by position.
\<close>

record faiss_index =
  index_d :: nat
  index_rows :: matrix

definition sq_dist :: "vec \<Rightarrow> vec \<Rightarrow> real" where
  "sq_dist a b = sum_list (map2 (\<lambda>x y. (x - y)\<^sup>2) a b)"

definition search_one :: "faiss_index \<Rightarrow> nat \<Rightarrow> vec \<Rightarrow> int list" where
  "search_one ix k q =
     (let ranked = sort_key fst (zip (map (sq_dist q) (index_rows ix))
                                     (map int [0..<length (index_rows ix)]));
          hits = take k (map snd ranked)
      in hits @ replicate (k - length hits) (- 1))"

definition faiss_search :: "faiss_index \<Rightarrow> matrix \<Rightarrow> nat \<Rightarrow> error + int list list" where
  "faiss_search ix queries k =
     (if \<exists>q\<in>set queries. length q \<noteq> index_d ix then Inl (AssertionError '''')
      else if k = 0 then Inl (AssertionError '''')
      else Inr (map (search_one ix k) queries))"

definition faiss_add :: "faiss_index \<Rightarrow> matrix \<Rightarrow> error + faiss_index" where
  "faiss_add ix rows =
     (if \<exists>r\<in>set rows. length r \<noteq> index_d ix then Inl (AssertionError '''')
      else Inr (ix\<lparr>index_rows := index_rows ix @ rows\<rparr>))"

subsection \<open>The data set object\<close>

text \<open>
  The attributes \<^verbatim>\<open>questions\<close>, \<^verbatim>\<open>answers\<close>, \<^verbatim>\<open>positive\<close> and
  \<^verbatim>\<open>negative\<close> do not exist before \<^verbatim>\<open>set_data\<close> (or \<^verbatim>\<open>load\<close>) binds them:
  \<open>None\<close> stands for a missing attribute in the first two, and for the value None of
  the classification mode in the last two. The tokenizer (\<^verbatim>\<open>nltk.word_tokenize\<close>) is
  an external function and is passed to the functions that call it.
\<close>

record QuestionData =
  vocab_size_cap :: int
  answer_max_count :: int
  answer_min_freq :: int
  neg_samples :: int
  use_contrastive_examples :: bool
  dimension :: nat
  representations :: "matrix option"
  vocab :: "Vocab option"
  lookup :: "faiss_index option"
  answer_indices :: "string list option"
  questions :: "string list option"
  answers_qd :: "string list option"
  positive_qd :: "string list list option"
  negative_qd :: "string list list option"

text \<open>The options of \<^verbatim>\<open>Parameters\<close> (module \<^verbatim>\<open>parameters\<close>) that the code reads.\<close>

record Parameters =
  dan_guesser_vocab_size :: int
  dan_guesser_max_classes :: int
  dan_guesser_ans_min_freq :: int
  dan_guesser_neg_samp :: int
  dan_guesser_criterion :: string
  dan_guesser_hidden_units :: nat
  dan_guesser_embed_dim :: nat
  dan_guesser_nn_dropout :: real
  dan_guesser_filename :: string
  dan_guesser_initialization :: string

definition QuestionData_init :: "Parameters \<Rightarrow> QuestionData" where
  "QuestionData_init parameters =
     \<lparr>vocab_size_cap = dan_guesser_vocab_size parameters,
      answer_max_count = dan_guesser_max_classes parameters,
      answer_min_freq = dan_guesser_ans_min_freq parameters,
      neg_samples = dan_guesser_neg_samp parameters,
      use_contrastive_examples = (dan_guesser_criterion parameters \<noteq> ''CrossEntropyLoss''),
      dimension = dan_guesser_hidden_units parameters,
      representations = None,
      vocab = None,
      lookup = None,
      answer_indices = None,
      questions = None,
      answers_qd = None,
      positive_qd = None,
      negative_qd = None\<rparr>"

text \<open>Reading an attribute that may not have been bound yet.\<close>

definition attr :: "string \<Rightarrow> 'a option \<Rightarrow> error + 'a" where
  "attr name v = (case v of None \<Rightarrow> Inl (AttributeError name) | Some x \<Rightarrow> Inr x)"

definition get_nearest :: "QuestionData \<Rightarrow> vec \<Rightarrow> nat \<Rightarrow> error + int list" where
  "get_nearest self query_row n_nearest =
     (case lookup self of
        None \<Rightarrow> Inl (AssertionError
                  ''Did you not initialize the KD tree by calling refresh_index?'')
      | Some ix \<Rightarrow>
          (case faiss_search ix [query_row] n_nearest of
             Inl e \<Rightarrow> Inl e
           | Inr indices \<Rightarrow> py_getitem indices 0))"

text \<open>
  \<^verbatim>\<open>get_batch_nearest\<close> returns the raw index matrix, the answers of the nearest rows,
  or their positions in the answer list, as its two flags say. With both flags set the
  second comprehension indexes the answer strings the first one produced: the first
  character of an answer is not a list index (TypeError), and an empty answer has no
  first character (IndexError).
\<close>

datatype nearest = Raw "int list list" | Answers "string list" | AnswerIds "nat list"

definition nearest_answer :: "QuestionData \<Rightarrow> int list \<Rightarrow> error + string" where
  "nearest_answer self row =
     (case py_getitem row 0 of
        Inl e \<Rightarrow> Inl e
      | Inr i \<Rightarrow>
          (case attr ''answers'' (answers_qd self) of
             Inl e \<Rightarrow> Inl e
           | Inr ans \<Rightarrow> py_getitem ans i))"

definition get_batch_nearest ::
  "QuestionData \<Rightarrow> matrix \<Rightarrow> nat \<Rightarrow> bool \<Rightarrow> bool \<Rightarrow> error + nearest" where
  "get_batch_nearest self query_representation n_nearest lookup_answer lookup_answer_id =
     (case lookup self of
        None \<Rightarrow> Inl (AttributeError ''search'')
      | Some ix \<Rightarrow>
     (case faiss_search ix query_representation n_nearest of
        Inl e \<Rightarrow> Inl e
      | Inr closest \<Rightarrow>
          if lookup_answer \<and> lookup_answer_id then
            (case sequence_err (map (nearest_answer self) closest) of
               Inl e \<Rightarrow> Inl e
             | Inr as \<Rightarrow>
                 if as = [] then Inr (AnswerIds [])
                 else if hd as = [] then Inl IndexError
                 else Inl TypeError)
          else if lookup_answer then
            (case sequence_err (map (nearest_answer self) closest) of
               Inl e \<Rightarrow> Inl e
             | Inr as \<Rightarrow> Inr (Answers as))
          else if lookup_answer_id then
            (case sequence_err
                    (map (\<lambda>row. case nearest_answer self row of
                                  Inl e \<Rightarrow> Inl e
                                | Inr a \<Rightarrow>
                                    (case attr ''index'' (answer_indices self) of
                                       Inl e \<Rightarrow> Inl e
                                     | Inr ai \<Rightarrow> py_index ai a)) closest) of
               Inl e \<Rightarrow> Inl e
             | Inr ids \<Rightarrow> Inr (AnswerIds ids))
          else Inr (Raw closest)))"

definition refresh_index :: "QuestionData \<Rightarrow> error + QuestionData" where
  "refresh_index self =
     (case representations self of
        None \<Rightarrow> Inl (AttributeError ''detach'')
      | Some training_rows \<Rightarrow>
          (case faiss_add \<lparr>index_d = dimension self, index_rows = []\<rparr> training_rows of
             Inl e \<Rightarrow> Inl e
           | Inr ix \<Rightarrow> Inr (self\<lparr>lookup := Some ix\<rparr>)))"

definition initialize_lookup_representation :: "QuestionData \<Rightarrow> error + QuestionData" where
  "initialize_lookup_representation self =
     (case attr ''answers'' (answers_qd self) of
        Inl e \<Rightarrow> Inl e
      | Inr ans \<Rightarrow>
          Inr (self\<lparr>representations := Some (replicate (length ans) (zeros (dimension self)))\<rparr>))"

subsection \<open>Building the vocabulary and vectorizing\<close>

text \<open>A question record is a dictionary from field names to strings.\<close>

type_synonym question = "string \<rightharpoonup> string"

definition dict_get :: "question \<Rightarrow> string \<Rightarrow> error + string" where
  "dict_get x key = (case x key of None \<Rightarrow> Inl (KeyError key) | Some v \<Rightarrow> Inr v)"

definition build_vocab ::
  "(string \<Rightarrow> string list) \<Rightarrow> QuestionData \<Rightarrow> question list \<Rightarrow> error + QuestionData" where
  "build_vocab tokenizer self qs =
     (case sequence_err (map (\<lambda>x. dict_get x ''text'') qs) of
        Inl e \<Rightarrow> Inl e
      | Inr texts \<Rightarrow>
          (let v = build_vocab_from_iterator (map tokenizer texts) [''<unk>'']
                     (vocab_size_cap self)
           in case vocab_getitem v ''<unk>'' of
                Inl e \<Rightarrow> Inl e
              | Inr unk \<Rightarrow>
                  (let v' = set_default_index v unk
                   in if vocab_size_cap self < 0
                         \<or> int (length (itos v')) \<le> vocab_size_cap self
                      then Inr (self\<lparr>vocab := Some v'\<rparr>)
                      else Inl (AssertionError ''Vocab too big''))))"

definition vectorize ::
  "string \<Rightarrow> Vocab option \<Rightarrow> (string \<Rightarrow> string list) \<Rightarrow> error + nat list list" where
  "vectorize ex v tokenizer =
     (case v of
        None \<Rightarrow> Inl (AssertionError ''Vocab not initialized'')
      | Some voc \<Rightarrow>
          (case sequence_err (map (vocab_getitem voc) (tokenizer ex)) of
             Inl e \<Rightarrow> Inl e
           | Inr token_indices \<Rightarrow> Inr [token_indices]))"

subsection \<open>Selecting the answers: set\_data\<close>

text \<open>
  \<^verbatim>\<open>collections.Counter\<close> over a sequence: a dictionary from item to count that
  keeps the order of first insertion, here an association list.
\<close>

definition counter_incr :: "'a \<Rightarrow> ('a \<times> nat) list \<Rightarrow> ('a \<times> nat) list" where
  "counter_incr x cs =
     (if x \<in> fst ` set cs then map (\<lambda>(k, c). if k = x then (k, c + 1) else (k, c)) cs
      else cs @ [(x, 1)])"

definition Counter :: "'a list \<Rightarrow> ('a \<times> nat) list" where
  "Counter xs = fold counter_incr xs []"

text \<open>
  \<^verbatim>\<open>Counter.most_common(n)\<close>: the \<open>n\<close> entries of highest count, highest first,
  entries of equal count in insertion order; nothing for \<open>n \<le> 0\<close>.
\<close>

definition most_common :: "int \<Rightarrow> ('a \<times> nat) list \<Rightarrow> ('a \<times> nat) list" where
  "most_common n cs = take (nat n) (sort_key (\<lambda>(x, c). - int c) cs)"

text \<open>\<^verbatim>\<open>answer_field in x and x[answer_field]\<close>: the field is present and not empty.\<close>

definition has_answer :: "string \<Rightarrow> question \<Rightarrow> bool" where
  "has_answer answer_field x = (case x answer_field of None \<Rightarrow> False | Some a \<Rightarrow> a \<noteq> [])"

definition labelled_in :: "string \<Rightarrow> string list \<Rightarrow> question \<Rightarrow> bool" where
  "labelled_in answer_field valid x =
     (case x answer_field of None \<Rightarrow> False | Some a \<Rightarrow> a \<in> set valid)"

text \<open>\<^verbatim>\<open>x[answer_field]\<close> for a record that has the field (the callers filter first).\<close>

definition field_value :: "string \<Rightarrow> question \<Rightarrow> string" where
  "field_value answer_field x = (case x answer_field of None \<Rightarrow> [] | Some a \<Rightarrow> a)"

definition select_answers :: "int \<Rightarrow> int \<Rightarrow> string list \<Rightarrow> string list" where
  "select_answers max_count min_freq labels =
     (let answer_counts = Counter labels;
          valid_answers = filter (\<lambda>(x, count). min_freq \<le> int count)
                            (most_common max_count answer_counts)
      in map fst (sort_key (\<lambda>(x, count). (- int count, x)) valid_answers))"

text \<open>\<^verbatim>\<open>QuestionData.comparison_indices\<close>.\<close>

definition comparison_indices ::
  "nat \<Rightarrow> string \<Rightarrow> string list \<Rightarrow> (string \<Rightarrow> string \<Rightarrow> bool) \<Rightarrow> nat list" where
  "comparison_indices this_idx target_answer full_answer_list answer_compare =
     map fst (filter (\<lambda>(idx, ans). answer_compare ans target_answer \<and> idx \<noteq> this_idx)
                (enumerate 0 full_answer_list))"

definition set_data ::
  "QuestionData \<Rightarrow> question list \<Rightarrow> string \<Rightarrow> string list option \<Rightarrow> error + QuestionData" where
  "set_data self qs answer_field fix_answers =
     (let ai = (case fix_answers of
                  None \<Rightarrow>
                    select_answers (answer_max_count self) (answer_min_freq self)
                      (map (field_value answer_field) (filter (has_answer answer_field) qs))
                | Some fixed \<Rightarrow> fixed);
          kept = filter (labelled_in answer_field ai) qs
      in case sequence_err (map (\<lambda>x. dict_get x ''text'') kept) of
           Inl e \<Rightarrow> Inl e
         | Inr texts \<Rightarrow>
             (let labels = map (field_value answer_field) kept;
                  idxs = [0..<length texts]
              in Inr (self\<lparr>answer_indices := Some ai,
                          questions := Some texts,
                          answers_qd := Some labels,
                          positive_qd :=
                            (if use_contrastive_examples self
                             then Some (map (\<lambda>idx. map (\<lambda>i. texts ! i)
                                    (comparison_indices idx (labels ! idx) labels (=))) idxs)
                             else None),
                          negative_qd :=
                            (if use_contrastive_examples self
                             then Some (map (\<lambda>idx. map (\<lambda>i. texts ! i)
                                    (comparison_indices idx (labels ! idx) labels (\<noteq>))) idxs)
                             else None)\<rparr>)))"

definition number_answers :: "QuestionData \<Rightarrow> error + nat" where
  "number_answers self =
     (case answer_indices self of None \<Rightarrow> Inl TypeError | Some ai \<Rightarrow> Inr (length ai))"

section \<open>Evaluation\<close>

text \<open>
  \<^verbatim>\<open>number_errors\<close> runs the forward pass of the model as it stands; \<open>keep\<close> is
  the dropout draw a model in training mode would consult.
\<close>

text \<open>\<^verbatim>\<open>torch.max(logits, 1)\<close>: per row the position of the first maximal value; a
  row without entries cannot be reduced.\<close>

fun argmax_from :: "real \<Rightarrow> nat \<Rightarrow> nat \<Rightarrow> vec \<Rightarrow> nat" where
  "argmax_from best best_i i [] = best_i"
| "argmax_from best best_i i (v # vs) =
     (if best < v then argmax_from v i (Suc i) vs else argmax_from best best_i (Suc i) vs)"

definition argmax :: "vec \<Rightarrow> error + nat" where
  "argmax row = (case row of [] \<Rightarrow> Inl IndexError | v # vs \<Rightarrow> Inr (argmax_from v 0 1 vs))"

definition count_true :: "bool list \<Rightarrow> nat" where
  "count_true bs = length (filter (\<lambda>b. b) bs)"

definition number_errors ::
  "(nat \<Rightarrow> nat \<Rightarrow> bool) \<Rightarrow> nat list list \<Rightarrow> nat list \<Rightarrow> string list \<Rightarrow> QuestionData \<Rightarrow> DanModel
     \<Rightarrow> error + nat" where
  "number_errors keep q_text q_len labels train_data model =
     (if criterion_name (criterion model) = ''MarginRankingLoss'' then
        (case forward model keep q_text q_len of
           Inl e \<Rightarrow> Inl e
         | Inr reps \<Rightarrow>
        (case get_batch_nearest train_data reps 1 True False of
           Inl e \<Rightarrow> Inl e
         | Inr (Answers predictions) \<Rightarrow>
             Inr (count_true (map (\<lambda>(pred, label). pred \<noteq> label) (zip predictions labels)))
         | Inr other \<Rightarrow> Inl TypeError))
      else if criterion_name (criterion model) = ''CrossEntropyLoss'' then
        (case forward model keep q_text q_len of
           Inl e \<Rightarrow> Inl e
         | Inr logits \<Rightarrow>
        (case sequence_err (map argmax logits) of
           Inl e \<Rightarrow> Inl e
         | Inr predicted_indices \<Rightarrow>
        (case attr ''index'' (answer_indices train_data) of
           Inl e \<Rightarrow> Inl e
         | Inr ai \<Rightarrow>
        (case sequence_err (map (py_index ai) labels) of
           Inl e \<Rightarrow> Inl e
         | Inr label_indices \<Rightarrow>
        (case broadcast2 predicted_indices label_indices of
           Inl e \<Rightarrow> Inl e
         | Inr pairs \<Rightarrow> Inr (count_true (map (\<lambda>(p, l). p \<noteq> l) pairs)))))))
      else Inr 0)"

text \<open>
  The loop of \<^verbatim>\<open>evaluate\<close> over the batches the data loader yields, with the running
  pair (error, num\_examples); \<^verbatim>\<open>question_text.size(0)\<close> is the number of rows of the
  batch. \<^verbatim>\<open>evaluate\<close> has put the model in evaluation mode, where no dropout draw is
  consulted; the draw handed to the forward pass is immaterial.
\<close>

fun evaluate_loop ::
  "q_batch list \<Rightarrow> DanModel \<Rightarrow> QuestionData \<Rightarrow> nat \<times> nat \<Rightarrow> error + nat \<times> nat" where
  "evaluate_loop [] model train_data acc = Inr acc"
| "evaluate_loop (batch # rest) model train_data (err, num_examples) =
     (case number_errors (\<lambda>i j. True) (question_text batch) (question_len batch)
             (answers batch) train_data model of
        Inl e \<Rightarrow> Inl e
      | Inr n \<Rightarrow>
          evaluate_loop rest model train_data
            (err + n, num_examples + length (question_text batch)))"

definition evaluate :: "q_batch list \<Rightarrow> DanModel \<Rightarrow> QuestionData \<Rightarrow> error + real" where
  "evaluate data_loader model train_data =
     (case evaluate_loop data_loader (eval_mode model) train_data (0, 0) of
        Inl e \<Rightarrow> Inl e
      | Inr (err, num_examples) \<Rightarrow>
          if num_examples = 0 then Inl ZeroDivisionError
          else Inr (1 - real err / real num_examples))"

section \<open>The training loss\<close>

text \<open>
  \<^verbatim>\<open>torch.pairwise_distance(x1, x2)\<close> with its defaults \<^verbatim>\<open>p = 2\<close> and
  \<^verbatim>\<open>eps = 1e-6\<close>: the 2-norm of \<open>x1 - x2 + eps\<close>, row by row.
\<close>

definition pairwise_eps :: real where
  "pairwise_eps = 1 / 1000000"

definition pairwise_distance :: "vec \<Rightarrow> vec \<Rightarrow> real" where
  "pairwise_distance a b = sqrt (sum_list (map2 (\<lambda>x y. (x - y + pairwise_eps)\<^sup>2) a b))"

definition pairwise_distance_batch :: "matrix \<Rightarrow> matrix \<Rightarrow> error + real list" where
  "pairwise_distance_batch x1 x2 =
     (case broadcast2 x1 x2 of
        Inl e \<Rightarrow> Inl e
      | Inr pairs \<Rightarrow> Inr (map (\<lambda>(a, b). pairwise_distance a b) pairs))"

text \<open>The mean reduction of a loss; the mean of no values is NaN, written \<open>None\<close>.\<close>

definition mean_reduction :: "real list \<Rightarrow> real option" where
  "mean_reduction xs = (if xs = [] then None else Some (sum_list xs / real (length xs)))"

text \<open>
  \<^verbatim>\<open>nn.MarginRankingLoss(margin)(input1, input2, target)\<close>:
  the mean of \<open>max 0 (- target * (input1 - input2) + margin)\<close>.
\<close>

definition margin_ranking_loss ::
  "real \<Rightarrow> real list \<Rightarrow> real list \<Rightarrow> real list \<Rightarrow> error + real option" where
  "margin_ranking_loss margin input1 input2 target =
     (case broadcast2 input1 input2 of
        Inl e \<Rightarrow> Inl e
      | Inr pairs \<Rightarrow>
          (case broadcast2 pairs target of
             Inl e \<Rightarrow> Inl e
           | Inr triples \<Rightarrow>
               Inr (mean_reduction
                      (map (\<lambda>((x1, x2), y). max 0 (- y * (x1 - x2) + margin)) triples))))"

text \<open>\<^verbatim>\<open>nn.CrossEntropyLoss()(logits, labels)\<close> with mean reduction.\<close>

definition cross_entropy_loss :: "matrix \<Rightarrow> nat list \<Rightarrow> error + real option" where
  "cross_entropy_loss logits labels =
     (if length logits \<noteq> length labels then Inl ValueError
      else if \<exists>(row, l)\<in>set (zip logits labels). length row \<le> l then Inl IndexError
      else Inr (mean_reduction
                  (map (\<lambda>(row, l). ln (sum_list (map exp row)) - row ! l) (zip logits labels))))"

text \<open>
  The loss of the ranking branch of \<^verbatim>\<open>batch_step\<close>, from the three representations:
  the two distances, the target of ones, and \<^verbatim>\<open>criterion(neg_dist, pos_dist, target)\<close>.
\<close>

definition ranking_loss :: "real \<Rightarrow> matrix \<Rightarrow> matrix \<Rightarrow> matrix \<Rightarrow> error + real option" where
  "ranking_loss margin anchor_rep positive_rep negative_rep =
     (case pairwise_distance_batch anchor_rep positive_rep of
        Inl e \<Rightarrow> Inl e
      | Inr pos_dist \<Rightarrow>
     (case pairwise_distance_batch anchor_rep negative_rep of
        Inl e \<Rightarrow> Inl e
      | Inr neg_dist \<Rightarrow>
          margin_ranking_loss margin neg_dist pos_dist (replicate (length pos_dist) 1)))"

text \<open>
  The loss \<^verbatim>\<open>batch_step\<close> returns. The three forward passes run in training mode,
  each with its own dropout draw. The gradient step that follows changes the parameters
  of the model and is not part of this value. For a criterion that is neither of the two
  the variable \<^verbatim>\<open>loss\<close> is never bound. In classification mode the caller passes None
  for the positive and negative batches.
\<close>

definition batch_step_loss ::
  "DanModel \<Rightarrow> (nat \<Rightarrow> nat \<Rightarrow> bool) \<Rightarrow> (nat \<Rightarrow> nat \<Rightarrow> bool) \<Rightarrow> (nat \<Rightarrow> nat \<Rightarrow> bool)
     \<Rightarrow> nat list list \<Rightarrow> nat list
     \<Rightarrow> (nat list list \<times> nat list) option \<Rightarrow> (nat list list \<times> nat list) option
     \<Rightarrow> string list \<Rightarrow> string list \<Rightarrow> error + real option" where
  "batch_step_loss model keep_a keep_p keep_n example example_length pos neg
       batch_answers answer_lookup =
     (case criterion model of
        MarginRankingLoss margin \<Rightarrow>
          (case forward model keep_a example example_length of
             Inl e \<Rightarrow> Inl e
           | Inr anchor_rep \<Rightarrow>
          (case pos of
             None \<Rightarrow> Inl TypeError
           | Some (positive_text, positive_length) \<Rightarrow>
          (case forward model keep_p positive_text positive_length of
             Inl e \<Rightarrow> Inl e
           | Inr positive_rep \<Rightarrow>
          (case neg of
             None \<Rightarrow> Inl TypeError
           | Some (negative_text, negative_length) \<Rightarrow>
          (case forward model keep_n negative_text negative_length of
             Inl e \<Rightarrow> Inl e
           | Inr negative_rep \<Rightarrow>
               ranking_loss margin anchor_rep positive_rep negative_rep)))))
      | CrossEntropyLoss \<Rightarrow>
          (case forward model keep_a example example_length of
             Inl e \<Rightarrow> Inl e
           | Inr logits \<Rightarrow>
               (case sequence_err (map (py_index answer_lookup) batch_answers) of
                  Inl e \<Rightarrow> Inl e
                | Inr label_indices \<Rightarrow> cross_entropy_loss logits label_indices))
      | OtherLoss n \<Rightarrow> Inl (NameError ''loss''))"

section \<open>The guesser: save, load and prediction\<close>

text \<open>
  The attribute \<^verbatim>\<open>dan_model\<close> does not exist before training or loading; \<open>None\<close>
  stands for the missing attribute. \<^verbatim>\<open>training_data\<close> starts as None.
\<close>

record DanGuesser =
  params :: Parameters
  training_data :: "QuestionData option"
  filename :: string
  dan_model :: "DanModel option"

definition DanGuesser_init :: "Parameters \<Rightarrow> DanGuesser" where
  "DanGuesser_init parameters =
     \<lparr>params = parameters, training_data = None,
      filename = dan_guesser_filename parameters, dan_model = None\<rparr>"

text \<open>The two bundles \<^verbatim>\<open>save\<close> writes, and the files of the directory by path.\<close>

record state_dict =
  sd_embeddings :: matrix
  sd_linear1_weight :: matrix
  sd_linear1_bias :: vec
  sd_linear2_weight :: matrix
  sd_linear2_bias :: vec

record checkpoint =
  ck_model_state_dict :: state_dict
  ck_vocab :: "Vocab option"
  ck_answer_indices :: "string list option"
  ck_dimension :: nat
  ck_criterion :: string
  ck_vocab_size :: nat
  ck_emb_dim :: nat
  ck_n_hidden_units :: nat
  ck_nn_dropout :: real
  ck_num_answers :: int

record data_checkpoint =
  dc_representations :: "matrix option"
  dc_questions :: "string list"
  dc_answers :: "string list"

datatype stored_file = ModelFile checkpoint | DataFile data_checkpoint

type_synonym directory = "string \<rightharpoonup> stored_file"

definition model_path :: "string \<Rightarrow> string" where
  "model_path name = name @ ''.torch.pkl''"

definition data_path :: "string \<Rightarrow> string" where
  "data_path name = name @ ''.data.pkl''"

definition get_state_dict :: "DanModel \<Rightarrow> state_dict" where
  "get_state_dict m =
     \<lparr>sd_embeddings = embeddings m,
      sd_linear1_weight = linear1_weight m, sd_linear1_bias = linear1_bias m,
      sd_linear2_weight = linear2_weight m, sd_linear2_bias = linear2_bias m\<rparr>"

text \<open>\<^verbatim>\<open>load_state_dict\<close>: every tensor must have the shape of the parameter it
  replaces.\<close>

definition load_state_dict :: "DanModel \<Rightarrow> state_dict \<Rightarrow> error + DanModel" where
  "load_state_dict m sd =
     (if same_shape (embeddings m) (sd_embeddings sd)
         \<and> same_shape (linear1_weight m) (sd_linear1_weight sd)
         \<and> length (linear1_bias m) = length (sd_linear1_bias sd)
         \<and> same_shape (linear2_weight m) (sd_linear2_weight sd)
         \<and> length (linear2_bias m) = length (sd_linear2_bias sd)
      then Inr (m\<lparr>embeddings := sd_embeddings sd,
                  linear1_weight := sd_linear1_weight sd, linear1_bias := sd_linear1_bias sd,
                  linear2_weight := sd_linear2_weight sd, linear2_bias := sd_linear2_bias sd\<rparr>)
      else Inl RuntimeError)"

definition save :: "DanGuesser \<Rightarrow> directory \<Rightarrow> error + directory" where
  "save self dir =
     (case dan_model self of
        None \<Rightarrow> Inr dir
      | Some m \<Rightarrow>
     (case attr ''vocab'' (training_data self) of
        Inl e \<Rightarrow> Inl e
      | Inr td \<Rightarrow>
          (let dir1 = dir(model_path (filename self) \<mapsto> ModelFile
                 \<lparr>ck_model_state_dict = get_state_dict m,
                  ck_vocab = vocab td,
                  ck_answer_indices = answer_indices td,
                  ck_dimension = dimension td,
                  ck_criterion = criterion_name (criterion m),
                  ck_vocab_size = vocab_size m,
                  ck_emb_dim = emb_dim m,
                  ck_n_hidden_units = n_hidden_units m,
                  ck_nn_dropout = nn_dropout m,
                  ck_num_answers = num_answers m\<rparr>)
           in if use_contrastive_examples td then
                (case attr ''questions'' (questions td) of
                   Inl e \<Rightarrow> Inl e
                 | Inr qs \<Rightarrow>
                (case attr ''answers'' (answers_qd td) of
                   Inl e \<Rightarrow> Inl e
                 | Inr ans \<Rightarrow>
                     Inr (dir1(data_path (filename self) \<mapsto> DataFile
                            \<lparr>dc_representations = representations td,
                             dc_questions = qs, dc_answers = ans\<rparr>))))
              else Inr dir1)))"

text \<open>
  \<^verbatim>\<open>load\<close>. The model is rebuilt by \<^verbatim>\<open>DanModel.__init__\<close> (with fresh random
  parameters \<open>rnd\<close> and the default initialization) and then takes the stored
  parameters. A file at either path that is not the bundle \<^verbatim>\<open>save\<close> writes there
  lacks the keys \<^verbatim>\<open>load\<close> reads.
\<close>

definition load ::
  "(string \<rightharpoonup> py_value) \<Rightarrow> init_values \<Rightarrow> DanGuesser \<Rightarrow> directory \<Rightarrow> error + DanGuesser" where
  "load globals rnd self dir =
     (case dir (model_path (filename self)) of
        None \<Rightarrow> Inl FileNotFoundError
      | Some (DataFile d) \<Rightarrow> Inl (KeyError ''criterion'')
      | Some (ModelFile ck) \<Rightarrow>
     (case DanModel_init globals rnd (nn_getattr_call (ck_criterion ck)) (ck_vocab_size ck)
             (ck_num_answers ck) (ck_emb_dim ck) (ck_n_hidden_units ck) (ck_nn_dropout ck)
             '''' of
        Inl e \<Rightarrow> Inl e
      | Inr m0 \<Rightarrow>
     (case load_state_dict m0 (ck_model_state_dict ck) of
        Inl e \<Rightarrow> Inl e
      | Inr m1 \<Rightarrow>
          (let m = eval_mode m1;
               td = (QuestionData_init (params self))
                      \<lparr>vocab := ck_vocab ck,
                       answer_indices := ck_answer_indices ck,
                       dimension := ck_dimension ck\<rparr>
           in case dir (data_path (filename self)) of
                None \<Rightarrow> Inr (self\<lparr>dan_model := Some m, training_data := Some td\<rparr>)
              | Some (ModelFile c) \<Rightarrow> Inl (KeyError ''representations'')
              | Some (DataFile dc) \<Rightarrow>
                  (case refresh_index
                          (td\<lparr>representations := dc_representations dc,
                              questions := Some (dc_questions dc),
                              answers_qd := Some (dc_answers dc)\<rparr>) of
                     Inl e \<Rightarrow> Inl e
                   | Inr td' \<Rightarrow>
                       Inr (self\<lparr>dan_model := Some m, training_data := Some td'\<rparr>))))))"

text \<open>\<^verbatim>\<open>torch.topk(representation, k, dim=1)\<close> for one row: the positions of the \<open>k\<close>
  largest values, largest first (equal values by position).\<close>

definition topk :: "nat \<Rightarrow> vec \<Rightarrow> int list" where
  "topk k row =
     take k (map snd (sort_key (\<lambda>(v, i). - v) (zip row (map int [0..<length row]))))"

text \<open>
  \<^verbatim>\<open>DanGuesser.__call__\<close>: the guesses for one question, each the string of the
  \<^verbatim>\<open>guess\<close> entry of the dictionaries it returns.
\<close>

definition guesser_call ::
  "(string \<Rightarrow> string list) \<Rightarrow> DanGuesser \<Rightarrow> string \<Rightarrow> nat \<Rightarrow> error + string list" where
  "guesser_call tokenizer self question_str n_guesses =
     (case dan_model self of
        None \<Rightarrow> Inl RuntimeError
      | Some m \<Rightarrow>
     (let model = eval_mode m
      in case attr ''vocab'' (training_data self) of
        Inl e \<Rightarrow> Inl e
      | Inr td \<Rightarrow>
     (case vectorize question_str (vocab td) tokenizer of
        Inl e \<Rightarrow> Inl e
      | Inr q_vec \<Rightarrow>
     (case py_getitem q_vec 0 of
        Inl e \<Rightarrow> Inl e
      | Inr q0 \<Rightarrow>
     (case forward model (\<lambda>i j. True) q_vec [length q0] of
        Inl e \<Rightarrow> Inl e
      | Inr reps \<Rightarrow>
     (case py_getitem reps 0 of
        Inl e \<Rightarrow> Inl e
      | Inr rep0 \<Rightarrow>
     (case (if use_contrastive_examples td then get_nearest td rep0 n_guesses
            else Inr (topk (min n_guesses (length rep0)) rep0)) of
        Inl e \<Rightarrow> Inl e
      | Inr raw_guesses \<Rightarrow>
     (case sequence_err
             (map (\<lambda>g. if use_contrastive_examples td
                        then (case attr ''answers'' (answers_qd td) of
                                Inl e \<Rightarrow> Inl e
                              | Inr ans \<Rightarrow> py_getitem ans g)
                        else (case attr ''__getitem__'' (answer_indices td) of
                                Inl e \<Rightarrow> Inl e
                              | Inr ai \<Rightarrow> py_getitem ai g)) raw_guesses) of
        Inl e \<Rightarrow> Inl e
      | Inr guesses \<Rightarrow>
          Inr (map (\<lambda>guess. if guess = ''<unk>'' then [] else guess) guesses)))))))))"

section \<open>Notions used in the statements\<close>

text \<open>
  The table of an embedding layer built with \<^verbatim>\<open>padding_idx=0\<close> for the model's sizes:
  one row of width \<open>emb_dim\<close> per id, at least the row of id 0, and that row zero.
\<close>

definition padding_row_zero :: "DanModel \<Rightarrow> bool" where
  "padding_row_zero self =
     (length (embeddings self) = vocab_size self
      \<and> 0 < vocab_size self
      \<and> list_all (\<lambda>r. length r = emb_dim self) (embeddings self)
      \<and> embeddings self ! 0 = zeros (emb_dim self))"

text \<open>The elementwise mean of a non-empty list of \<open>d\<close>-dimensional vectors.\<close>

definition elementwise_mean :: "nat \<Rightarrow> vec list \<Rightarrow> vec" where
  "elementwise_mean d vs = map (\<lambda>x. x / real (length vs)) (vsum d vs)"

text \<open>A small configuration for the worked examples: two hidden units, two embedding
  dimensions, no bound on the vocabulary.\<close>

definition tiny_parameters :: "string \<Rightarrow> Parameters" where
  "tiny_parameters crit =
     \<lparr>dan_guesser_vocab_size = - 1,
      dan_guesser_max_classes = 10,
      dan_guesser_ans_min_freq = 1,
      dan_guesser_neg_samp = 1,
      dan_guesser_criterion = crit,
      dan_guesser_hidden_units = 2,
      dan_guesser_embed_dim = 2,
      dan_guesser_nn_dropout = 0,
      dan_guesser_filename = ''dan'',
      dan_guesser_initialization = ''''\<rparr>"

text \<open>A small model for the worked examples: three token ids (id 0 is the padding row),
  two dimensions throughout, both linear layers the identity.\<close>

definition tiny_model :: "criterion \<Rightarrow> DanModel" where
  "tiny_model crit =
     \<lparr>vocab_size = 3, emb_dim = 2, n_hidden_units = 2, nn_dropout = 0,
      criterion = crit,
      num_answers = (if criterion_name crit = ''CrossEntropyLoss'' then 2 else - 1),
      embeddings = [[0, 0], [2, 1], [1, 2]],
      linear1_weight = [[1, 0], [0, 1]], linear1_bias = [0, 0],
      linear2_weight = [[1, 0], [0, 1]], linear2_bias = [0, 0],
      training = False\<rparr>"

text \<open>
  The ranking loss as the specification words it, for one (anchor, positive, negative)
  triple: the hinge of the margin plus the difference of the two Euclidean distances.
\<close>

definition euclidean_distance :: "vec \<Rightarrow> vec \<Rightarrow> real" where
  "euclidean_distance a b = sqrt (sum_list (map2 (\<lambda>x y. (x - y)\<^sup>2) a b))"

definition stated_ranking_loss :: "real \<Rightarrow> vec \<Rightarrow> vec \<Rightarrow> vec \<Rightarrow> real" where
  "stated_ranking_loss margin a p n =
     max 0 (margin + euclidean_distance a p - euclidean_distance a n)"

text \<open>The hinge the code computes for one triple, on the distances of
  \<^verbatim>\<open>torch.pairwise_distance\<close>.\<close>

definition hinge :: "real \<Rightarrow> vec \<Rightarrow> vec \<Rightarrow> vec \<Rightarrow> real" where
  "hinge margin a p n = max 0 (margin + pairwise_distance a p - pairwise_distance a n)"

text \<open>An association list holds the counts of a sequence: distinct keys, each with its
  number of occurrences.\<close>

definition counts_of :: "'a list \<Rightarrow> ('a \<times> nat) list \<Rightarrow> bool" where
  "counts_of xs cs = (distinct (map fst cs) \<and> (\<forall>(k, c)\<in>set cs. c = count_list xs k))"

text \<open>The intermediate list \<^verbatim>\<open>valid_answers\<close> of \<^verbatim>\<open>set_data\<close>.\<close>

definition valid_answers_of :: "int \<Rightarrow> int \<Rightarrow> string list \<Rightarrow> (string \<times> nat) list" where
  "valid_answers_of max_count min_freq labels =
     filter (\<lambda>(x, count). min_freq \<le> int count) (most_common max_count (Counter labels))"

text \<open>The labels \<^verbatim>\<open>set_data\<close> counts: those of the records that have a non-empty
  answer field.\<close>

definition training_labels :: "string \<Rightarrow> question list \<Rightarrow> string list" where
  "training_labels answer_field qs =
     map (field_value answer_field) (filter (has_answer answer_field) qs)"

text \<open>Question records for the worked examples.\<close>

definition mk_question :: "string \<Rightarrow> string \<Rightarrow> question" where
  "mk_question text_v page_v = [''text'' \<mapsto> text_v, ''page'' \<mapsto> page_v]"

text \<open>\<^verbatim>\<open>QuestionData.__len__\<close>: the number of questions in the data set.\<close>

definition QuestionData_len :: "QuestionData \<Rightarrow> error + nat" where
  "QuestionData_len self =
     (case attr ''questions'' (questions self) of Inl e \<Rightarrow> Inl e | Inr q \<Rightarrow> Inr (length q))"

text \<open>The records \<^verbatim>\<open>set_data\<close> keeps for a given answer list.\<close>

definition kept_records :: "string \<Rightarrow> string list \<Rightarrow> question list \<Rightarrow> question list" where
  "kept_records answer_field valid qs = filter (labelled_in answer_field valid) qs"

text \<open>A data set and seven training records for the worked examples: the labels are
  b, a, b, c, a, (none), d.\<close>

definition tiny_data :: "string \<Rightarrow> QuestionData" where
  "tiny_data crit =
     (QuestionData_init (tiny_parameters crit))\<lparr>answer_max_count := 3, answer_min_freq := 2\<rparr>"

definition tiny_questions :: "question list" where
  "tiny_questions =
     [mk_question ''q1'' ''b'', mk_question ''q2'' ''a'', mk_question ''q3'' ''b'',
      mk_question ''q4'' ''c'', mk_question ''q5'' ''a'', mk_question ''q6'' '''',
      mk_question ''q7'' ''d'']"

text \<open>
  The errors of one batch as the specification counts them. In classification mode a
  row is an error when the position of its largest logit differs from the position of
  its gold label in the answer list; in ranking mode when the answer stored with the
  nearest representation differs from its gold label.
\<close>

definition classification_errors :: "string list \<Rightarrow> matrix \<Rightarrow> string list \<Rightarrow> nat" where
  "classification_errors ai logits labels =
     count_true (map (\<lambda>(row, label). argmax row \<noteq> py_index ai label) (zip logits labels))"

definition ranking_errors :: "QuestionData \<Rightarrow> faiss_index \<Rightarrow> matrix \<Rightarrow> string list \<Rightarrow> nat" where
  "ranking_errors td ix reps labels =
     count_true (map (\<lambda>(rep, label). nearest_answer td (search_one ix 1 rep) \<noteq> Inr label)
                   (zip reps labels))"

text \<open>The number of examples of a data loader: the rows of all its batches.\<close>

definition total_examples :: "q_batch list \<Rightarrow> nat" where
  "total_examples data_loader = sum_list (map (\<lambda>b. length (question_text b)) data_loader)"

text \<open>A trained data set and one batch for the worked examples.\<close>

definition tiny_trained :: "string \<Rightarrow> QuestionData" where
  "tiny_trained crit =
     (tiny_data crit)
       \<lparr>answer_indices := Some [''a'', ''b''],
        questions := Some [''q2'', ''q1''],
        answers_qd := Some [''a'', ''b''],
        representations := Some [[2, 1], [1, 2]],
        lookup := Some \<lparr>index_d = 2, index_rows = [[2, 1], [1, 2]]\<rparr>,
        vocab := Some \<lparr>itos = [''<unk>'', ''x'', ''y''], default_index = Some 0\<rparr>\<rparr>"

definition tiny_batch :: q_batch where
  "tiny_batch =
     \<lparr>question_text = [[1, 0], [2, 1]], question_len = [1, 2],
      answers = [''a'', ''b''], ex_indices = [0, 1]\<rparr>"

text \<open>
  The parameter tensors of a model have the shapes \<^verbatim>\<open>DanModel.__init__\<close> gives them for
  the model's sizes and criterion (training changes their entries, never their shapes).
\<close>

definition out_features :: "DanModel \<Rightarrow> nat" where
  "out_features m =
     (if criterion_name (criterion m) = ''MarginRankingLoss'' then n_hidden_units m
      else nat (num_answers m))"

definition constructed_shapes :: "DanModel \<Rightarrow> bool" where
  "constructed_shapes m =
     (0 < vocab_size m
      \<and> (criterion_name (criterion m) = ''MarginRankingLoss''
           \<or> criterion_name (criterion m) = ''CrossEntropyLoss'' \<and> 0 \<le> num_answers m)
      \<and> map length (embeddings m) = replicate (vocab_size m) (emb_dim m)
      \<and> map length (linear1_weight m) = replicate (n_hidden_units m) (emb_dim m)
      \<and> length (linear1_bias m) = n_hidden_units m
      \<and> map length (linear2_weight m) = replicate (out_features m) (n_hidden_units m)
      \<and> length (linear2_bias m) = out_features m)"

text \<open>A trained guesser for the worked examples, a tokenizer that splits nothing, and
  initial parameter values.\<close>

definition tiny_guesser :: "criterion \<Rightarrow> DanGuesser" where
  "tiny_guesser crit =
     (DanGuesser_init (tiny_parameters (criterion_name crit)))
       \<lparr>training_data := Some (tiny_trained (criterion_name crit)),
        dan_model := Some (tiny_model crit)\<rparr>"

definition whole_tokenizer :: "string \<Rightarrow> string list" where
  "whole_tokenizer s = [s]"

definition zero_init :: init_values where
  "zero_init =
     \<lparr>emb_init = (\<lambda>i j. 0), w1_init = (\<lambda>i j. 0), b1_init = (\<lambda>i. 0),
      w2_init = (\<lambda>i j. 0), b2_init = (\<lambda>i. 0)\<rparr>"

section \<open>The gradient step on the embedding table\<close>

text \<open>
  What \<^verbatim>\<open>loss.backward()\<close>, \<^verbatim>\<open>clip_grad_norm_\<close> and \<^verbatim>\<open>optimizer.step()\<close> of
  \<^verbatim>\<open>batch_step\<close> do to the embedding table. The backward pass accumulates, for every
  position of the batch, the gradient arriving at that position into the row of its
  token id, except for the row at \<^verbatim>\<open>padding_idx\<close>, which \<^verbatim>\<open>nn.Embedding\<close> leaves
  without gradient; clipping scales all gradients by one coefficient; the step of
  \<^verbatim>\<open>torch.optim.SGD\<close> (no momentum, no weight decay) subtracts the learning rate times
  the gradient. \<open>contributions\<close> lists the pairs (token id, arriving gradient) of the
  batch.
\<close>

definition embedding_grad :: "nat \<Rightarrow> nat \<Rightarrow> nat \<Rightarrow> (nat \<times> vec) list \<Rightarrow> matrix" where
  "embedding_grad num_embeddings embedding_dim padding_idx contributions =
     map (\<lambda>i. if i = padding_idx then zeros embedding_dim
              else vsum embedding_dim (map snd (filter (\<lambda>(t, g). t = i) contributions)))
       [0..<num_embeddings]"

definition sgd_step_embeddings ::
  "real \<Rightarrow> real \<Rightarrow> DanModel \<Rightarrow> (nat \<times> vec) list \<Rightarrow> DanModel" where
  "sgd_step_embeddings lr clip_coef m contributions =
     m\<lparr>embeddings :=
         map2 (\<lambda>w g. map2 (\<lambda>a b. a - lr * (clip_coef * b)) w g) (embeddings m)
           (embedding_grad (vocab_size m) (emb_dim m) 0 contributions)\<rparr>"

section \<open>Verified properties\<close>

subsection \<open>Batch assembly\<close>

lemma fold_max_ge: "a \<le> fold max xs (a::nat)"
  by (induction xs arbitrary: a) (auto intro: order_trans[OF max.cobounded2])

lemma fold_max_mem: "x \<in> set xs \<Longrightarrow> x \<le> fold max xs (a::nat)"
proof (induction xs arbitrary: a)
  case Nil
  then show ?case by simp
next
  case (Cons y ys)
  show ?case
  proof (cases "x = y")
    case True
    have "max y a \<le> fold max ys (max y a)" by (rule fold_max_ge)
    with True show ?thesis by simp
  next
    case False
    with Cons show ?thesis by simp
  qed
qed

lemma longest_example_length_eq:
  "longest_example_length ex =
     (if 0 < raw_longest ex then Inr (raw_longest ex) else Inl (AssertionError ''''))"
  by (cases "positive ex"; cases "negative ex")
     (simp_all add: longest_example_length_def raw_longest_def Let_def max.commute
        max.left_commute)

text \<open>
  The loop of \<^verbatim>\<open>batchify_examples_only\<close> from row \<open>k\<close> on: when every token
  sequence fits the width of the matrix, the loop succeeds, writes each sequence
  left-aligned into its own row and leaves everything else as it was.
\<close>

lemma examples_only_loop_spec:
  assumes "length (question_text b) = N" "length (question_len b) = N"
    "k + length exs \<le> N" "\<forall>i<N. length (question_text b ! i) = W"
    "\<forall>ex\<in>set exs. length (tokens ex) \<le> W"
  shows "\<exists>b'. examples_only_loop (enumerate k exs) b = Inr b'
     \<and> length (question_text b') = N \<and> length (question_len b') = N
     \<and> answers b' = answers b @ map answer exs
     \<and> ex_indices b' = ex_indices b @ [k..<k + length exs]
     \<and> (\<forall>i<N. question_text b' ! i =
           (if k \<le> i \<and> i < k + length exs
            then tokens (exs ! (i - k)) @
                 drop (length (tokens (exs ! (i - k)))) (question_text b ! i)
            else question_text b ! i))
     \<and> (\<forall>i<N. question_len b' ! i =
           (if k \<le> i \<and> i < k + length exs then length (tokens (exs ! (i - k)))
            else question_len b ! i))"
  using assms
proof (induction exs arbitrary: k b)
  case Nil
  then show ?case by auto
next
  case (Cons ex exs)
  let ?n = "length (tokens ex)"
  let ?m = "(question_text b)[k := tokens ex @ drop ?n (question_text b ! k)]"
  let ?b = "b\<lparr>question_text := ?m, question_len := (question_len b)[k := ?n],
              answers := answers b @ [answer ex], ex_indices := ex_indices b @ [k]\<rparr>"
  from Cons.prems have kN: "k < N" and nW: "?n \<le> W"
    and rowk: "length (question_text b ! k) = W"
    by auto
  have step: "examples_only_loop (enumerate k (ex # exs)) b =
      examples_only_loop (enumerate (Suc k) exs) ?b"
    using nW rowk by (simp add: slice_copy_def Let_def)
  have rows: "\<forall>i<N. length (question_text ?b ! i) = W"
    using Cons.prems nW by (auto simp: nth_list_update)
  from Cons.IH[of ?b "Suc k"] Cons.prems rows
  obtain b' where b': "examples_only_loop (enumerate (Suc k) exs) ?b = Inr b'"
     "length (question_text b') = N" "length (question_len b') = N"
     "answers b' = answers ?b @ map answer exs"
     "ex_indices b' = ex_indices ?b @ [Suc k..<Suc k + length exs]"
     "\<forall>i<N. question_text b' ! i =
           (if Suc k \<le> i \<and> i < Suc k + length exs
            then tokens (exs ! (i - Suc k)) @
                 drop (length (tokens (exs ! (i - Suc k)))) (question_text ?b ! i)
            else question_text ?b ! i)"
     "\<forall>i<N. question_len b' ! i =
           (if Suc k \<le> i \<and> i < Suc k + length exs then length (tokens (exs ! (i - Suc k)))
            else question_len ?b ! i)"
    by auto
  have idx: "[k..<k + length (ex # exs)] = k # [Suc k..<Suc k + length exs]"
    using upt_conv_Cons[of k "Suc k + length exs"] by simp
  have shift: "(ex # exs) ! (i - k) = exs ! (i - Suc k)" if "Suc k \<le> i" for i
    using that by (metis Suc_diff_le diff_Suc_Suc nth_Cons_Suc)
  have t: "\<forall>i<N. question_text b' ! i =
           (if k \<le> i \<and> i < k + length (ex # exs)
            then tokens ((ex # exs) ! (i - k)) @
                 drop (length (tokens ((ex # exs) ! (i - k)))) (question_text b ! i)
            else question_text b ! i)"
  proof (intro allI impI)
    fix i assume iN: "i < N"
    consider "i < k" | "i = k" | "Suc k \<le> i" by linarith
    then show "question_text b' ! i =
           (if k \<le> i \<and> i < k + length (ex # exs)
            then tokens ((ex # exs) ! (i - k)) @
                 drop (length (tokens ((ex # exs) ! (i - k)))) (question_text b ! i)
            else question_text b ! i)"
    proof cases
      case 1
      then show ?thesis using b'(6) iN Cons.prems(1) by simp
    next
      case 2
      then show ?thesis using b'(6) iN Cons.prems(1) by simp
    next
      case 3
      then show ?thesis using shift[OF 3] b'(6) iN Cons.prems(1) by auto
    qed
  qed
  have l: "\<forall>i<N. question_len b' ! i =
           (if k \<le> i \<and> i < k + length (ex # exs)
            then length (tokens ((ex # exs) ! (i - k)))
            else question_len b ! i)"
  proof (intro allI impI)
    fix i assume iN: "i < N"
    consider "i < k" | "i = k" | "Suc k \<le> i" by linarith
    then show "question_len b' ! i =
           (if k \<le> i \<and> i < k + length (ex # exs)
            then length (tokens ((ex # exs) ! (i - k)))
            else question_len b ! i)"
    proof cases
      case 1
      then show ?thesis using b'(7) iN Cons.prems(2) by simp
    next
      case 2
      then show ?thesis using b'(7) iN Cons.prems(2) by simp
    next
      case 3
      then show ?thesis using shift[OF 3] b'(7) iN Cons.prems(2) by auto
    qed
  qed
  show ?case
    using step b'(1-5) idx t l by simp
qed

text \<open>
  \<^verbatim>\<open>batchify_examples_only\<close> on a non-empty batch whose examples all pass the
  assertion of \<^verbatim>\<open>longest_example_length\<close>: the rows are the token sequences in
  batch order, each right-padded with the id 0; the lengths are the true token counts.
\<close>

lemma batchify_examples_only_ok:
  assumes ne: "batch \<noteq> []" and pos: "\<forall>ex\<in>set batch. 0 < raw_longest ex"
  shows "batchify_examples_only batch =
     Inr \<lparr>question_text = map (\<lambda>ex. pad_row (batch_width batch) (tokens ex)) batch,
          question_len = map (\<lambda>ex. length (tokens ex)) batch,
          answers = map answer batch,
          ex_indices = [0..<length batch]\<rparr>"
proof -
  let ?W = "batch_width batch" and ?N = "length batch"
  let ?b0 = "\<lparr>question_text = zeros_matrix ?N ?W, question_len = replicate ?N 0,
              answers = [], ex_indices = []\<rparr>"
  have seq: "sequence_err (map longest_example_length batch) = Inr (map raw_longest batch)"
    using pos by (induction batch) (auto simp: longest_example_length_eq)
  have mx: "py_max (map raw_longest batch) = Inr ?W"
    using ne by (simp add: py_max_def batch_width_def)
  have unfold: "batchify_examples_only batch = examples_only_loop (enumerate 0 batch) ?b0"
    by (simp add: batchify_examples_only_def seq mx)
  have le: "\<forall>ex\<in>set batch. length (tokens ex) \<le> ?W"
  proof
    fix ex assume "ex \<in> set batch"
    then have "raw_longest ex \<le> ?W"
      unfolding batch_width_def by (intro fold_max_mem) simp
    moreover have "length (tokens ex) \<le> raw_longest ex"
      by (simp add: raw_longest_def)
    ultimately show "length (tokens ex) \<le> ?W" by simp
  qed
  from examples_only_loop_spec[of ?b0 ?N 0 batch ?W] le
  obtain b' where b': "examples_only_loop (enumerate 0 batch) ?b0 = Inr b'"
     "length (question_text b') = ?N" "length (question_len b') = ?N"
     "answers b' = map answer batch"
     "ex_indices b' = [0..<length batch]"
     "\<forall>i<?N. question_text b' ! i =
         tokens (batch ! i) @ drop (length (tokens (batch ! i))) (question_text ?b0 ! i)"
     "\<forall>i<?N. question_len b' ! i = length (tokens (batch ! i))"
    by (auto simp: zeros_matrix_def)
  have qt: "question_text b' = map (\<lambda>ex. pad_row ?W (tokens ex)) batch"
    using b'(2,6) by (intro nth_equalityI) (auto simp: zeros_matrix_def pad_row_def)
  have ql: "question_len b' = map (\<lambda>ex. length (tokens ex)) batch"
    using b'(3,7) by (intro nth_equalityI) auto
  show ?thesis
    using unfold b'(1,4,5) qt ql by simp
qed

text \<open>
  Claim C3. The batch-wide width is meant to be the maximum over the anchor, positive
  and negative sequences, but \<^verbatim>\<open>longest_example_length\<close> takes \<^verbatim>\<open>len\<close> of the
  2-D positive and negative tensors, which is their number of rows (1), not their number
  of tokens. For one ranking example with one anchor token and a positive sequence of two
  tokens the matrices are one column wide, and copying the positive sequence into its
  row raises: no batch is assembled.
\<close>

theorem batchify_with_contrastive_long_positive_raises:
  "batchify_with_contrastive
     [\<lparr>tokens = [5], answer = ''a'', positive = Some [[3, 4]], negative = Some [[2]]\<rparr>]
   = Inl RuntimeError"
  by (simp add: batchify_with_contrastive_def batchify_examples_only_def
      longest_example_length_def py_max_def zeros_matrix_def slice_copy_def first_row_def
      py_getitem_def)

subsection \<open>Identity initialization\<close>

lemma module_globals_emb_dim: "module_globals ''emb_dim'' = None"
  by (simp add: module_globals_def)

text \<open>Whatever the model, asking for the identity initialization stops at the first
  bare name.\<close>

lemma initialize_parameters_identity:
  "initialize_parameters module_globals self ''identity'' = Inl (NameError ''emb_dim'')"
  by (simp add: initialize_parameters_def module_globals_emb_dim)

text \<open>
  Claim C4. With the preconditions of the identity initialization met (classification,
  embedding dimension = hidden width = class count = 2), constructing the model with
  \<^verbatim>\<open>initialization="identity"\<close> does not set the layers to the identity: it raises
  NameError, because \<^verbatim>\<open>initialize_parameters\<close> reads \<^verbatim>\<open>emb_dim\<close> as a bare name
  that is bound neither in the method nor in the module.
\<close>

theorem identity_initialization_raises:
  "DanModel_init module_globals rnd CrossEntropyLoss 3 2 2 2 (1 / 2) ''identity''
     = Inl (NameError ''emb_dim'')"
  by (simp add: DanModel_init_def nn_Embedding_def initialize_parameters_identity)

subsection \<open>Queries before the index is built\<close>

text \<open>
  Claim C7. While no index has been built (\<^verbatim>\<open>lookup\<close> is None, as
  \<^verbatim>\<open>QuestionData.__init__\<close> leaves it), both queries raise and return nothing:
  \<^verbatim>\<open>get_nearest\<close> fails its assertion with the message naming
  \<^verbatim>\<open>refresh_index\<close>, and \<^verbatim>\<open>get_batch_nearest\<close> raises AttributeError when it
  calls \<^verbatim>\<open>search\<close> on None.
\<close>

theorem query_before_refresh_fails:
  assumes "lookup self = None"
  shows "get_nearest self query_row n_nearest
           = Inl (AssertionError ''Did you not initialize the KD tree by calling refresh_index?'')
       \<and> get_batch_nearest self query_representation n_nearest lookup_answer lookup_answer_id
           = Inl (AttributeError ''search'')"
  using assms by (simp add: get_nearest_def get_batch_nearest_def)

theorem query_before_refresh_fails_witness:
  "lookup (QuestionData_init (tiny_parameters ''MarginRankingLoss'')) = None
   \<and> get_nearest (QuestionData_init (tiny_parameters ''MarginRankingLoss'')) [1, 2] 1
        = Inl (AssertionError ''Did you not initialize the KD tree by calling refresh_index?'')
   \<and> get_batch_nearest (QuestionData_init (tiny_parameters ''MarginRankingLoss'')) [[1, 2]] 1
          True False
        = Inl (AttributeError ''search'')"
  using query_before_refresh_fails
          [of "QuestionData_init (tiny_parameters ''MarginRankingLoss'')" "[1, 2]" 1 "[[1, 2]]"
              True False]
  by (simp add: QuestionData_init_def)

subsection \<open>Masked average pooling\<close>

lemma map2_add_zeros: "length v = d \<Longrightarrow> map2 (+) v (zeros d) = v"
  by (induction v arbitrary: d) (auto simp: zeros_def)

lemma vsum_replicate_zeros: "vsum d (replicate p (zeros d)) = zeros d"
  by (induction p) (auto simp: vsum_def map2_add_zeros zeros_def)

lemma vsum_pad: "vsum d (vs @ replicate p (zeros d)) = vsum d vs"
proof -
  have "vsum d (vs @ replicate p (zeros d)) = foldr (map2 (+)) vs (vsum d (replicate p (zeros d)))"
    by (simp add: vsum_def)
  then show ?thesis by (simp add: vsum_replicate_zeros) (simp add: vsum_def)
qed

lemma sequence_err_map_Inr:
  "\<forall>x\<in>set xs. f x = Inr (g x) \<Longrightarrow> sequence_err (map f xs) = Inr (map g xs)"
  by (induction xs) auto

lemma embedding_ok:
  assumes "\<forall>row\<in>set input_text. \<forall>t\<in>set row. t < length w"
  shows "embedding w input_text = Inr (map (map ((!) w)) input_text)"
  unfolding embedding_def
  by (intro sequence_err_map_Inr ballI) (use assms in \<open>simp add: embedding_row_def\<close>)

lemma embed_pad_row:
  assumes "0 < length w" "length ts \<le> n"
  shows "map ((!) w) (pad_row n ts) = map ((!) w) ts @ replicate (n - length ts) (w ! 0)"
  by (simp add: pad_row_def)

lemma average_equal_lengths:
  assumes "length text_embeddings = length text_len"
  shows "average self text_embeddings text_len =
     Inr (map2 (\<lambda>vs n. map (\<lambda>x. x / max (real n) 1) (vsum (emb_dim self) vs))
            text_embeddings text_len)"
  using assms
  by (simp add: average_def broadcast2_def Let_def zip_map_map zip_map1 zip_map2 case_prod_unfold)

text \<open>
  Claim C1. For a model whose embedding table has the zero row at the padding id 0 (as
  \<^verbatim>\<open>nn.Embedding(..., padding_idx=0)\<close> builds it), and a batch of token sequences
  right-padded with id 0 to any common width \<open>w\<close>: the embedding lookup succeeds and
  \<^verbatim>\<open>average\<close> returns, for each sequence of true length \<open>L \<ge> 1\<close>, the elementwise
  mean of its first \<open>L\<close> embedded positions, whatever the width \<open>w\<close>; for an empty
  sequence the divisor is 1.
\<close>

theorem average_is_mean_of_true_positions:
  assumes pz: "padding_row_zero self"
    and fit: "\<forall>ts\<in>set seqs. length ts \<le> w \<and> (\<forall>t\<in>set ts. t < vocab_size self)"
  shows "\<exists>embedded.
           embedding (embeddings self) (map (pad_row w) seqs) = Inr embedded
         \<and> average self embedded (map length seqs) =
             Inr (map (\<lambda>ts. if ts = [] then map (\<lambda>x. x / 1) (zeros (emb_dim self))
                             else elementwise_mean (emb_dim self)
                                    (map ((!) (embeddings self)) ts)) seqs)"
proof -
  let ?W = "embeddings self" and ?d = "emb_dim self"
  from pz have len: "length ?W = vocab_size self" and pos: "0 < length ?W"
    and row0: "?W ! 0 = zeros ?d"
    by (simp_all add: padding_row_zero_def)
  have ids: "\<forall>row\<in>set (map (pad_row w) seqs). \<forall>t\<in>set row. t < length ?W"
    using fit pos len by (auto simp: pad_row_def)
  let ?E = "map (map ((!) ?W)) (map (pad_row w) seqs)"
  have emb: "embedding ?W (map (pad_row w) seqs) = Inr ?E"
    by (rule embedding_ok[OF ids])
  have row: "map (\<lambda>x. x / max (real (length ts)) 1) (vsum ?d (map ((!) ?W) (pad_row w ts)))
      = (if ts = [] then map (\<lambda>x. x / 1) (zeros ?d)
         else elementwise_mean ?d (map ((!) ?W) ts))" if "ts \<in> set seqs" for ts
  proof -
    have "vsum ?d (map ((!) ?W) (pad_row w ts)) = vsum ?d (map ((!) ?W) ts)"
      by (simp add: pad_row_def row0 vsum_pad)
    moreover have "max (real (length ts)) 1 = real (length ts)" if "ts \<noteq> []"
      using that by (cases ts) auto
    ultimately show ?thesis
      by (auto simp: elementwise_mean_def vsum_def)
  qed
  have "average self ?E (map length seqs) =
     Inr (map2 (\<lambda>vs n. map (\<lambda>x. x / max (real n) 1) (vsum ?d vs)) ?E (map length seqs))"
    by (rule average_equal_lengths) simp
  also have "map2 (\<lambda>vs n. map (\<lambda>x. x / max (real n) 1) (vsum ?d vs)) ?E (map length seqs)
     = map (\<lambda>ts. map (\<lambda>x. x / max (real (length ts)) 1)
                   (vsum ?d (map ((!) ?W) (pad_row w ts)))) seqs"
    by (simp add: zip_map_map zip_same_conv_map)
  also have "\<dots> = map (\<lambda>ts. if ts = [] then map (\<lambda>x. x / 1) (zeros ?d)
                             else elementwise_mean ?d (map ((!) ?W) ts)) seqs"
    using row by (intro map_cong) auto
  finally show ?thesis using emb by blast
qed

theorem average_is_mean_of_true_positions_witness:
  "\<exists>embedded.
     embedding (embeddings (tiny_model CrossEntropyLoss)) (map (pad_row 3) [[1, 2], [2], []])
       = Inr embedded
   \<and> average (tiny_model CrossEntropyLoss) embedded (map length [[1, 2], [2], [] :: nat list])
       = Inr [[3 / 2, 3 / 2], [1, 2], [0, 0]]"
proof -
  have pz: "padding_row_zero (tiny_model CrossEntropyLoss)"
    by (simp add: padding_row_zero_def tiny_model_def zeros_def numeral_2_eq_2)
  have fit: "\<forall>ts\<in>set [[1, 2], [2], []].
      length ts \<le> 3 \<and> (\<forall>t\<in>set ts. t < vocab_size (tiny_model CrossEntropyLoss))"
    by (simp add: tiny_model_def)
  from average_is_mean_of_true_positions[OF pz fit] show ?thesis
    by (simp add: tiny_model_def zeros_def elementwise_mean_def vsum_def numeral_2_eq_2)
qed

subsection \<open>The ranking loss\<close>

lemma broadcast2_same: "length xs = length ys \<Longrightarrow> broadcast2 xs ys = Inr (zip xs ys)"
  by (simp add: broadcast2_def)

lemma ranking_loss_rows:
  assumes "length P = length A" "length N = length A"
  shows "ranking_loss margin A P N =
     Inr (mean_reduction (map (\<lambda>(a, p, n). hinge margin a p n) (zip A (zip P N))))"
proof -
  have pd: "pairwise_distance_batch A P = Inr (map2 pairwise_distance A P)"
    using assms by (simp add: pairwise_distance_batch_def broadcast2_same)
  have nd: "pairwise_distance_batch A N = Inr (map2 pairwise_distance A N)"
    using assms by (simp add: pairwise_distance_batch_def broadcast2_same)
  have "map (\<lambda>((x1, x2), y). max 0 (- y * (x1 - x2) + margin))
          (zip (zip (map2 pairwise_distance A N) (map2 pairwise_distance A P))
               (replicate (length A) 1))
      = map (\<lambda>(a, p, n). hinge margin a p n) (zip A (zip P N))"
    using assms
    by (intro nth_equalityI) (auto simp: hinge_def)
  then show ?thesis
    using assms by (simp add: ranking_loss_def pd nd margin_ranking_loss_def broadcast2_same)
qed

lemma sum_list_const: "(\<forall>x\<in>set xs. f x = (c::real)) \<Longrightarrow> sum_list (map f xs) = real (length xs) * c"
  by (induction xs) (auto simp: algebra_simps)

text \<open>The ranking branch of \<^verbatim>\<open>batch_step\<close> returns this loss of its three forward
  passes.\<close>

lemma batch_step_loss_ranking:
  assumes "criterion model = MarginRankingLoss margin"
    and "forward model keep_a example example_length = Inr A"
    and "forward model keep_p positive_text positive_length = Inr P"
    and "forward model keep_n negative_text negative_length = Inr N"
  shows "batch_step_loss model keep_a keep_p keep_n example example_length
           (Some (positive_text, positive_length)) (Some (negative_text, negative_length))
           batch_answers answer_lookup
         = ranking_loss margin A P N"
  using assms by (simp add: batch_step_loss_def)

text \<open>
  Claim C2, as amended. For a non-empty batch of anchor, positive and negative
  representations the ranking loss is the mean over the rows of
  \<open>max 0 (margin + d(a, p) - d(a, n))\<close>, where \<open>d\<close> is
  \<^verbatim>\<open>torch.pairwise_distance\<close> (the 2-norm of \<open>a - b + 1e-6\<close>) and the margin is the
  one of the criterion object, 0 for the criterion \<^verbatim>\<open>initialize_model\<close> builds. It
  is zero whenever in every row the negative distance exceeds the positive one by at
  least the margin, and equals the margin when in every row the two distances are equal
  and the margin is not negative.
\<close>

theorem ranking_loss_is_mean_hinge:
  assumes "length P = length A" "length N = length A" "A \<noteq> []"
  shows "ranking_loss margin A P N =
           Inr (Some (sum_list (map (\<lambda>(a, p, n). hinge margin a p n) (zip A (zip P N)))
                       / real (length A)))
      \<and> ((\<forall>(a, p, n)\<in>set (zip A (zip P N)).
             pairwise_distance a p + margin \<le> pairwise_distance a n)
           \<longrightarrow> ranking_loss margin A P N = Inr (Some 0))
      \<and> ((\<forall>(a, p, n)\<in>set (zip A (zip P N)).
             pairwise_distance a p = pairwise_distance a n) \<and> 0 \<le> margin
           \<longrightarrow> ranking_loss margin A P N = Inr (Some margin))
      \<and> nn_getattr_call ''MarginRankingLoss'' = MarginRankingLoss 0"
proof -
  let ?T = "zip A (zip P N)"
  have len: "length ?T = length A" using assms by simp
  have ne: "?T \<noteq> []" using assms by (cases A; cases P; cases N) auto
  have main: "ranking_loss margin A P N =
      Inr (Some (sum_list (map (\<lambda>(a, p, n). hinge margin a p n) ?T) / real (length A)))"
    using ranking_loss_rows[OF assms(1,2)] ne len by (simp add: mean_reduction_def)
  have zero: "ranking_loss margin A P N = Inr (Some 0)"
    if h: "\<forall>(a, p, n)\<in>set ?T. pairwise_distance a p + margin \<le> pairwise_distance a n"
  proof -
    have "\<forall>t\<in>set ?T. (\<lambda>(a, p, n). hinge margin a p n) t = 0"
      using h by (auto simp: hinge_def)
    then have "sum_list (map (\<lambda>(a, p, n). hinge margin a p n) ?T) = real (length ?T) * 0"
      by (rule sum_list_const)
    then show ?thesis using main by simp
  qed
  have eq: "ranking_loss margin A P N = Inr (Some margin)"
    if h: "\<forall>(a, p, n)\<in>set ?T. pairwise_distance a p = pairwise_distance a n" and m: "0 \<le> margin"
  proof -
    have "\<forall>t\<in>set ?T. (\<lambda>(a, p, n). hinge margin a p n) t = margin"
      using h m by (auto simp: hinge_def)
    then have "sum_list (map (\<lambda>(a, p, n). hinge margin a p n) ?T) = real (length ?T) * margin"
      by (rule sum_list_const)
    then show ?thesis using main len assms(3) by simp
  qed
  show ?thesis using main zero eq by (simp add: nn_getattr_call_def)
qed

lemma pd1: "pairwise_distance [a] [b] = \<bar>a - b + pairwise_eps\<bar>"
  by (simp add: pairwise_distance_def)

lemma ed1: "euclidean_distance [a] [b] = \<bar>a - b\<bar>"
  by (simp add: euclidean_distance_def)

text \<open>
  The claim as stated fails: with the anchor \<open>[0]\<close>, the positive \<open>[-1]\<close> and the
  negative \<open>[1]\<close> both Euclidean distances are 1, so the stated loss at margin 0 is 0,
  while the code returns \<open>2e-6\<close>.
\<close>

theorem ranking_loss_not_euclidean_hinge:
  "nn_getattr_call ''MarginRankingLoss'' = MarginRankingLoss 0
   \<and> euclidean_distance [0] [- 1] = 1
   \<and> euclidean_distance [0] [1] = 1
   \<and> stated_ranking_loss 0 [0] [- 1] [1] = 0
   \<and> ranking_loss 0 [[0]] [[- 1]] [[1]] = Inr (Some (1 / 500000))"
  by (simp add: nn_getattr_call_def ed1 stated_ranking_loss_def ranking_loss_def
      pairwise_distance_batch_def broadcast2_def margin_ranking_loss_def mean_reduction_def
      pd1 pairwise_eps_def)

theorem ranking_loss_is_mean_hinge_witness:
  "ranking_loss 1 [[0], [0]] [[0], [2]] [[3], [2]] = Inr (Some (1 / 2))
   \<and> ranking_loss 1 [[0]] [[0]] [[3]] = Inr (Some 0)
   \<and> ranking_loss 1 [[0]] [[2]] [[2]] = Inr (Some 1)"
proof -
  have a: "length [[0], [2::real]] = length [[0], [0::real]]" 
    and b: "length [[3], [2::real]] = length [[0], [0::real]]"
    and c: "[[0], [0::real]] \<noteq> []" by simp_all
  have z: "\<forall>(a, p, n)\<in>set (zip [[0]] (zip [[0]] [[3::real]])).
             pairwise_distance a p + 1 \<le> pairwise_distance a n"
    by (simp add: pd1 pairwise_eps_def)
  have e: "\<forall>(a, p, n)\<in>set (zip [[0]] (zip [[2]] [[2::real]])).
             pairwise_distance a p = pairwise_distance a n"
    by simp
  have 1: "ranking_loss 1 [[0], [0]] [[0], [2]] [[3], [2]] = Inr (Some (1 / 2))"
    using ranking_loss_is_mean_hinge[OF a b c, of 1]
    by (simp add: hinge_def pd1 pairwise_eps_def)
  have 2: "ranking_loss 1 [[0]] [[0]] [[3]] = Inr (Some 0)"
    using ranking_loss_is_mean_hinge[of "[[0]]" "[[0]]" "[[3]]" 1] z by (simp add: hinge_def)
  have 3: "ranking_loss 1 [[0]] [[2]] [[2]] = Inr (Some 1)"
    using ranking_loss_is_mean_hinge[of "[[2]]" "[[0]]" "[[2]]" 1] e by (simp add: hinge_def)
  show ?thesis using 1 2 3 by simp
qed

subsection \<open>The answer index\<close>

lemma map_fst_bump:
  "map fst (map (\<lambda>(k, c). if k = x then (k, c + 1) else (k, c :: nat)) cs) = map fst cs"
  by (induction cs) auto

lemma counter_incr_map_fst:
  "map fst (counter_incr x cs) = (if x \<in> fst ` set cs then map fst cs else map fst cs @ [x])"
  using map_fst_bump[of x cs] by (simp add: counter_incr_def)

lemma counter_incr_keys: "fst ` set (counter_incr x cs) = insert x (fst ` set cs)"
proof -
  have "fst ` set (counter_incr x cs) = set (map fst (counter_incr x cs))" by simp
  also have "\<dots> = insert x (fst ` set cs)"
    unfolding counter_incr_map_fst by auto
  finally show ?thesis .
qed

lemma counter_incr_mem:
  assumes "x \<in> fst ` set cs" "(k, n) \<in> set (counter_incr x cs)"
  shows "\<exists>c. (k, c) \<in> set cs \<and> n = (if k = x then c + 1 else c)"
proof -
  from assms obtain p where p: "p \<in> set cs"
      "(k, n) = (\<lambda>(k, c). if k = x then (k, c + 1) else (k, c)) p"
    by (auto simp: counter_incr_def)
  obtain k' c where [simp]: "p = (k', c)" by (cases p)
  from p show ?thesis by (cases "k' = x") auto
qed

lemma Counter_snoc: "Counter (xs @ [x]) = counter_incr x (Counter xs)"
  by (simp add: Counter_def)

lemma counter_incr_counts:
  assumes "counts_of xs cs" "fst ` set cs = set xs"
  shows "counts_of (xs @ [x]) (counter_incr x cs)"
proof -
  from assms have d: "distinct (map fst cs)" and c: "\<forall>(k, c)\<in>set cs. c = count_list xs k"
    by (auto simp: counts_of_def)
  have d': "distinct (map fst (counter_incr x cs))"
    using d by (auto simp: counter_incr_map_fst)
  have c': "n = count_list (xs @ [x]) k" if kn: "(k, n) \<in> set (counter_incr x cs)" for k n
  proof (cases "x \<in> fst ` set cs")
    case True
    from counter_incr_mem[OF True kn] obtain c0 where
      c0: "(k, c0) \<in> set cs" "n = (if k = x then c0 + 1 else c0)" by blast
    from c c0(1) have "c0 = count_list xs k" by auto
    with c0(2) show ?thesis by simp
  next
    case False
    then have z: "count_list xs x = 0" using assms(2) by (simp add: count_list_0_iff)
    from False kn have "(k, n) \<in> set cs \<or> (k, n) = (x, 1)"
      by (auto simp: counter_incr_def)
    then show ?thesis
    proof
      assume m: "(k, n) \<in> set cs"
      then have "k \<noteq> x" using False by force
      moreover from c m have "n = count_list xs k" by auto
      ultimately show ?thesis by simp
    next
      assume "(k, n) = (x, 1)"
      then show ?thesis using z by simp
    qed
  qed
  show ?thesis using d' c' by (auto simp: counts_of_def)
qed

lemma Counter_spec: "counts_of xs (Counter xs) \<and> fst ` set (Counter xs) = set xs"
proof (induction xs rule: rev_induct)
  case Nil
  then show ?case by (simp add: Counter_def counts_of_def)
next
  case (snoc x xs)
  then show ?case
    by (auto simp: Counter_snoc counter_incr_counts counter_incr_keys)
qed

lemma distinct_map_fst_sort_key:
  "distinct (map fst (sort_key f xs)) = distinct (map fst xs)"
  by (simp add: distinct_map)

lemma distinct_map_fst_take: "distinct (map fst xs) \<Longrightarrow> distinct (map fst (take n xs))"
  by (simp add: take_map[symmetric] del: take_map)

lemma select_answers_eq:
  "select_answers max_count min_freq labels =
     map fst (sort_key (\<lambda>(x, count). (- int count, x)) (valid_answers_of max_count min_freq labels))"
  by (simp add: select_answers_def valid_answers_of_def Let_def)

lemma valid_subset:
  "set (valid_answers_of max_count min_freq labels) \<subseteq> set (Counter labels)"
  by (auto simp: valid_answers_of_def most_common_def dest: in_set_takeD)

lemma valid_distinct: "distinct (map fst (valid_answers_of max_count min_freq labels))"
proof -
  have "distinct (map fst (Counter labels))"
    using Counter_spec[of labels] by (simp add: counts_of_def)
  then have "distinct (map fst (most_common max_count (Counter labels)))"
    unfolding most_common_def by (intro distinct_map_fst_take) (simp add: distinct_map)
  then show ?thesis
    unfolding valid_answers_of_def by (rule distinct_map_filter)
qed

lemma valid_count:
  "(x, c) \<in> set (valid_answers_of max_count min_freq labels) \<Longrightarrow>
     c = count_list labels x \<and> min_freq \<le> int c"
proof -
  assume a: "(x, c) \<in> set (valid_answers_of max_count min_freq labels)"
  then have "(x, c) \<in> set (Counter labels)" using valid_subset by blast
  then have "c = count_list labels x"
    using Counter_spec[of labels] by (auto simp: counts_of_def)
  moreover have "min_freq \<le> int c" using a by (simp add: valid_answers_of_def)
  ultimately show ?thesis by simp
qed

lemma valid_length:
  "int (length (valid_answers_of max_count min_freq labels)) \<le> max max_count 0"
proof -
  have "length (valid_answers_of max_count min_freq labels)
          \<le> length (most_common max_count (Counter labels))"
    by (simp add: valid_answers_of_def)
  also have "\<dots> \<le> nat max_count" by (simp add: most_common_def)
  finally show ?thesis by linarith
qed

lemma select_answers_properties:
  fixes labels :: "string list" and max_count min_freq :: int
  defines "ai \<equiv> select_answers max_count min_freq labels"
  shows "distinct ai
     \<and> (\<forall>l\<in>set ai. l \<in> set labels \<and> min_freq \<le> int (count_list labels l))
     \<and> (0 \<le> max_count \<longrightarrow> int (length ai) \<le> max_count)
     \<and> sorted (map (\<lambda>l. (- int (count_list labels l), l)) ai)
     \<and> (\<forall>i j. i < j \<and> j < length ai \<longrightarrow>
           count_list labels (ai ! j) < count_list labels (ai ! i)
           \<or> (count_list labels (ai ! j) = count_list labels (ai ! i) \<and> ai ! i < ai ! j))"
proof -
  let ?key = "\<lambda>(x, count). (- int count, x :: string)"
  let ?V = "valid_answers_of max_count min_freq labels"
  let ?S = "sort_key ?key ?V"
  let ?k = "\<lambda>l. (- int (count_list labels l), l)"
  have ai: "ai = map fst ?S" by (simp add: ai_def select_answers_eq)
  have d: "distinct ai"
    using valid_distinct[of max_count min_freq labels] by (simp add: ai distinct_map)
  have mem: "\<forall>l\<in>set ai. l \<in> set labels \<and> min_freq \<le> int (count_list labels l)"
  proof
    fix l assume "l \<in> set ai"
    then obtain c where "(l, c) \<in> set ?V" by (auto simp: ai)
    from valid_count[OF this] have c: "c = count_list labels l" "min_freq \<le> int c" by auto
    then have "0 < count_list labels l \<or> min_freq \<le> 0" by linarith
    moreover have "l \<in> set labels"
      using \<open>(l, c) \<in> set ?V\<close> valid_subset[of max_count min_freq labels]
        Counter_spec[of labels] by (metis fst_conv image_eqI subsetD)
    ultimately show "l \<in> set labels \<and> min_freq \<le> int (count_list labels l)"
      using c by simp
  qed
  have len: "0 \<le> max_count \<longrightarrow> int (length ai) \<le> max_count"
    using valid_length[of max_count min_freq labels] by (auto simp: ai max_def split: if_splits)
  have keys: "map ?key ?S = map ?k ai"
    unfolding ai map_map
  proof (rule map_cong[OF refl])
    fix p assume "p \<in> set ?S"
    then have "p \<in> set ?V" by simp
    then have "snd p = count_list labels (fst p)"
      using valid_count[of "fst p" "snd p"] by simp
    then show "?key p = (?k \<circ> fst) p" by (simp add: case_prod_unfold)
  qed
  have srt: "sorted (map ?k ai)"
    using sorted_sort_key[of ?key ?V] by (simp add: keys)
  have pair: "\<forall>i j. i < j \<and> j < length ai \<longrightarrow>
           count_list labels (ai ! j) < count_list labels (ai ! i)
           \<or> (count_list labels (ai ! j) = count_list labels (ai ! i) \<and> ai ! i < ai ! j)"
  proof (intro allI impI)
    fix i j assume ij: "i < j \<and> j < length ai"
    then have "map ?k ai ! i \<le> map ?k ai ! j"
      using srt by (simp add: sorted_iff_nth_mono)
    then have le: "?k (ai ! i) \<le> ?k (ai ! j)" using ij by simp
    have ne: "ai ! i \<noteq> ai ! j" using d ij by (simp add: nth_eq_iff_index_eq)
    from le ne show "count_list labels (ai ! j) < count_list labels (ai ! i)
           \<or> (count_list labels (ai ! j) = count_list labels (ai ! i) \<and> ai ! i < ai ! j)"
      by (auto simp: less_eq_prod_def)
  qed
  show ?thesis using d mem len srt pair by blast
qed


lemma set_data_answer_indices:
  assumes "set_data self qs answer_field None = Inr td"
  shows "answer_indices td =
     Some (select_answers (answer_max_count self) (answer_min_freq self)
             (training_labels answer_field qs))"
  using assms
  by (auto simp: set_data_def Let_def training_labels_def split: sum.splits)

text \<open>
  Claim C5. The answer index \<^verbatim>\<open>set_data\<close> builds from a training set (no fixed
  answers) is the list \<open>select_answers\<close> of the labels it counts: it has no duplicates,
  every entry is a training label of frequency at least the threshold, it is no longer
  than a non-negative maximum-class count, and of two entries the earlier one is the more
  frequent, or they are equally frequent and the earlier one is the lexically smaller.
\<close>

theorem answer_index_properties:
  fixes qs :: "question list" and answer_field :: string and self :: QuestionData
  defines "labels \<equiv> training_labels answer_field qs"
  defines "ai \<equiv> select_answers (answer_max_count self) (answer_min_freq self) labels"
  shows "(\<forall>td. set_data self qs answer_field None = Inr td \<longrightarrow> answer_indices td = Some ai)
     \<and> distinct ai
     \<and> (\<forall>l\<in>set ai. l \<in> set labels \<and> answer_min_freq self \<le> int (count_list labels l))
     \<and> (0 \<le> answer_max_count self \<longrightarrow> int (length ai) \<le> answer_max_count self)
     \<and> (\<forall>i j. i < j \<and> j < length ai \<longrightarrow>
           count_list labels (ai ! j) < count_list labels (ai ! i)
           \<or> (count_list labels (ai ! j) = count_list labels (ai ! i) \<and> ai ! i < ai ! j))"
  using select_answers_properties[of "answer_max_count self" "answer_min_freq self" labels]
    set_data_answer_indices[of self qs answer_field]
  unfolding ai_def labels_def by blast
lemma texts_ok:
  assumes "\<forall>x\<in>set kept. x ''text'' \<noteq> None"
  shows "sequence_err (map (\<lambda>x. dict_get x ''text'') kept) = Inr (map (field_value ''text'') kept)"
  using assms
  by (intro sequence_err_map_Inr) (auto simp: dict_get_def field_value_def)

lemma set_data_succeeds:
  assumes "\<forall>x\<in>set qs. x ''text'' \<noteq> None"
  shows "\<exists>td. set_data self qs answer_field fix_answers = Inr td"
proof -
  have "sequence_err (map (\<lambda>x. dict_get x ''text'') (filter P qs))
          = Inr (map (field_value ''text'') (filter P qs))" for P
    using assms by (intro texts_ok) simp
  then show ?thesis by (simp add: set_data_def Let_def)
qed

lemma tiny_labels:
  "training_labels ''page'' tiny_questions = [''b'', ''a'', ''b'', ''c'', ''a'', ''d'']"
  by (simp add: training_labels_def has_answer_def field_value_def mk_question_def
      tiny_questions_def)

lemma tiny_select: "select_answers 3 2 [''b'', ''a'', ''b'', ''c'', ''a'', ''d''] = [''a'', ''b'']"
  by code_simp

lemma tiny_texts: "\<forall>x\<in>set tiny_questions. x ''text'' \<noteq> None"
  by (simp add: tiny_questions_def mk_question_def)

theorem answer_index_properties_witness:
  "(\<exists>td. set_data (tiny_data ''CrossEntropyLoss'') tiny_questions ''page'' None = Inr td
         \<and> answer_indices td = Some [''a'', ''b''])
   \<and> (0::int) \<le> answer_max_count (tiny_data ''CrossEntropyLoss'')
   \<and> int (length [''a'', ''b'']) \<le> answer_max_count (tiny_data ''CrossEntropyLoss'')"
proof -
  have p: "answer_max_count (tiny_data ''CrossEntropyLoss'') = 3"
    "answer_min_freq (tiny_data ''CrossEntropyLoss'') = 2"
    by (simp_all add: tiny_data_def QuestionData_init_def)
  obtain td where td: "set_data (tiny_data ''CrossEntropyLoss'') tiny_questions ''page'' None = Inr td"
    using set_data_succeeds[OF tiny_texts] by blast
  have "\<forall>td. set_data (tiny_data ''CrossEntropyLoss'') tiny_questions ''page'' None = Inr td
          \<longrightarrow> answer_indices td = Some (select_answers 3 2 (training_labels ''page'' tiny_questions))"
    using answer_index_properties[of "tiny_data ''CrossEntropyLoss''" tiny_questions "''page''"]
    unfolding p by (rule conjunct1)
  with td have "answer_indices td = Some [''a'', ''b'']"
    by (simp only: tiny_labels tiny_select)
  with td show ?thesis by (auto simp: p)
qed

subsection \<open>The evaluation set\<close>

lemma py_index_mem: "x \<in> set xs \<Longrightarrow> \<exists>i. py_index xs x = Inr i \<and> i < length xs \<and> xs ! i = x"
  by (induction xs) auto

lemma py_index_all:
  "set ls \<subseteq> set xs \<Longrightarrow> \<exists>ids. sequence_err (map (py_index xs) ls) = Inr ids \<and> length ids = length ls"
proof (induction ls)
  case Nil
  then show ?case by simp
next
  case (Cons l ls)
  then obtain ids where "sequence_err (map (py_index xs) ls) = Inr ids" "length ids = length ls"
    by auto
  moreover from Cons.prems obtain i where "py_index xs l = Inr i"
    using py_index_mem[of l xs] by auto
  ultimately show ?case by simp
qed

lemma kept_label_in:
  "x \<in> set (kept_records answer_field valid qs) \<Longrightarrow> field_value answer_field x \<in> set valid"
  by (auto simp: kept_records_def labelled_in_def field_value_def split: option.splits)

text \<open>
  Claim C6. Loading the evaluation set with the frozen answer list \<open>fixed\<close> (every
  kept record having a text) succeeds and keeps exactly the records whose label is in
  the list: the answer list is unchanged, questions and answers are those of the kept
  records, the data set has as many items as records were kept, a record with a label
  outside the list is not among them, and for any batch of labels drawn from the data
  set the label lookup of \<^verbatim>\<open>number_errors\<close> succeeds.
\<close>

theorem eval_set_excludes_unknown_labels:
  assumes has_text: "\<forall>x\<in>set qs. labelled_in answer_field fixed x \<longrightarrow> x ''text'' \<noteq> None"
  shows "\<exists>td. set_data self qs answer_field (Some fixed) = Inr td
      \<and> answer_indices td = Some fixed
      \<and> questions td = Some (map (field_value ''text'') (kept_records answer_field fixed qs))
      \<and> answers_qd td = Some (map (field_value answer_field) (kept_records answer_field fixed qs))
      \<and> QuestionData_len td = Inr (length (kept_records answer_field fixed qs))
      \<and> (\<forall>x\<in>set qs. \<not> labelled_in answer_field fixed x
            \<longrightarrow> x \<notin> set (kept_records answer_field fixed qs))
      \<and> (\<forall>labels. set labels \<subseteq> set (map (field_value answer_field)
                                          (kept_records answer_field fixed qs))
            \<longrightarrow> (\<exists>ids. sequence_err (map (py_index fixed) labels) = Inr ids))"
proof -
  let ?kept = "kept_records answer_field fixed qs"
  have t: "sequence_err (map (\<lambda>x. dict_get x ''text'') ?kept) = Inr (map (field_value ''text'') ?kept)"
    using has_text by (intro texts_ok) (simp add: kept_records_def)
  obtain td where td: "set_data self qs answer_field (Some fixed) = Inr td"
      "answer_indices td = Some fixed"
      "questions td = Some (map (field_value ''text'') ?kept)"
      "answers_qd td = Some (map (field_value answer_field) ?kept)"
    using t by (simp add: set_data_def Let_def kept_records_def[symmetric])
  have len: "QuestionData_len td = Inr (length ?kept)"
    by (simp add: QuestionData_len_def attr_def td(3))
  have excl: "\<forall>x\<in>set qs. \<not> labelled_in answer_field fixed x \<longrightarrow> x \<notin> set ?kept"
    by (simp add: kept_records_def)
  have idx: "\<forall>labels. set labels \<subseteq> set (map (field_value answer_field) ?kept)
            \<longrightarrow> (\<exists>ids. sequence_err (map (py_index fixed) labels) = Inr ids)"
  proof (intro allI impI)
    fix labels assume "set labels \<subseteq> set (map (field_value answer_field) ?kept)"
    then have "set labels \<subseteq> set fixed" using kept_label_in by fastforce
    from py_index_all[OF this] show "\<exists>ids. sequence_err (map (py_index fixed) labels) = Inr ids"
      by blast
  qed
  show ?thesis using td len excl idx by blast
qed

lemma kq: "kept_records ''page'' [''a'', ''b''] tiny_questions
    = [mk_question ''q1'' ''b'', mk_question ''q2'' ''a'', mk_question ''q3'' ''b'', mk_question ''q5'' ''a'']"
  by (simp add: kept_records_def tiny_questions_def labelled_in_def mk_question_def)

theorem eval_set_excludes_unknown_labels_witness:
  "\<exists>td. set_data (tiny_data ''CrossEntropyLoss'') tiny_questions ''page'' (Some [''a'', ''b''])
           = Inr td
      \<and> answers_qd td = Some [''b'', ''a'', ''b'', ''a'']
      \<and> questions td = Some [''q1'', ''q2'', ''q3'', ''q5'']
      \<and> QuestionData_len td = Inr 4
      \<and> mk_question ''q4'' ''c'' \<notin> set (kept_records ''page'' [''a'', ''b''] tiny_questions)"
proof -
  have has_text: "\<forall>x\<in>set tiny_questions. labelled_in ''page'' [''a'', ''b''] x \<longrightarrow> x ''text'' \<noteq> None"
    by (simp add: tiny_questions_def mk_question_def)
  have c: "mk_question ''q4'' ''c'' \<in> set tiny_questions"
    "\<not> labelled_in ''page'' [''a'', ''b''] (mk_question ''q4'' ''c'')"
    by (simp_all add: tiny_questions_def labelled_in_def mk_question_def)
  from eval_set_excludes_unknown_labels[OF has_text, of "tiny_data ''CrossEntropyLoss''"] c
  show ?thesis
    by (auto simp: kq field_value_def mk_question_def)
qed

subsection \<open>Evaluation\<close>

lemma evaluate_loop_sum:
  assumes "\<forall>b\<in>set loader.
     number_errors (\<lambda>i j. True) (question_text b) (question_len b) (answers b) td m
       = Inr (errs b)"
  shows "evaluate_loop loader m td (e, n) =
     Inr (e + sum_list (map errs loader), n + total_examples loader)"
  using assms
  by (induction loader arbitrary: e n) (simp_all add: total_examples_def add.assoc)

lemma search_one_hit:
  assumes "index_rows ix \<noteq> []"
  shows "\<exists>i. search_one ix 1 q = [int i] \<and> i < length (index_rows ix)"
proof -
  let ?z = "zip (map (sq_dist q) (index_rows ix)) (map int [0..<length (index_rows ix)])"
  let ?r = "sort_key fst ?z"
  have ne: "?r \<noteq> []" using assms by (metis length_0_conv length_map length_sort length_upt length_zip min.idem diff_zero)
  then obtain p ps where r: "?r = p # ps" by (cases ?r) auto
  have "p \<in> set ?z" using r by (metis list.set_intros(1) set_sort)
  then have "snd p \<in> set (map int [0..<length (index_rows ix)])"
    by (metis in_set_zipE prod.collapse)
  then obtain i where "snd p = int i" "i < length (index_rows ix)" by auto
  then show ?thesis using r by (simp add: search_one_def Let_def)
qed

lemma argmax_all:
  "\<forall>row\<in>set logits. row \<noteq> [] \<Longrightarrow> \<exists>ps. sequence_err (map argmax logits) = Inr ps
      \<and> map Inr ps = map argmax logits"
proof (induction logits)
  case Nil
  then show ?case by simp
next
  case (Cons r rs)
  then obtain ps where ps: "sequence_err (map argmax rs) = Inr ps" "map Inr ps = map argmax rs"
    by auto
  from Cons.prems obtain v vs where "r = v # vs" by (cases r) auto
  then have "argmax r = Inr (argmax_from v 0 1 vs)" by (simp add: argmax_def)
  with ps show ?case by simp
qed

lemma py_index_all_map:
  "set ls \<subseteq> set xs \<Longrightarrow> \<exists>ids. sequence_err (map (py_index xs) ls) = Inr ids
      \<and> map Inr ids = map (py_index xs) ls"
proof (induction ls)
  case Nil
  then show ?case by simp
next
  case (Cons l ls)
  then obtain ids where ids: "sequence_err (map (py_index xs) ls) = Inr ids"
      "map Inr ids = map (py_index xs) ls"
    by auto
  from Cons.prems obtain i where "py_index xs l = Inr i"
    using py_index_mem[of l xs] by auto
  with ids show ?case by simp
qed

lemma count_mismatch_Inr:
  assumes "map Inr ps = map f xs" "map Inr ls = map g ys" "length xs = length ys"
  shows "count_true (map (\<lambda>(p, l). p \<noteq> l) (zip ps ls))
       = count_true (map (\<lambda>(x, y). f x \<noteq> g y) (zip xs ys))"
proof -
  have lp: "length ps = length xs" and ll: "length ls = length ys"
    using assms(1,2) by (metis length_map)+
  have "map (\<lambda>(p, l). p \<noteq> l) (zip ps ls) = map (\<lambda>(x, y). f x \<noteq> g y) (zip xs ys)"
  proof (intro nth_equalityI)
    show "length (map (\<lambda>(p, l). p \<noteq> l) (zip ps ls)) = length (map (\<lambda>(x, y). f x \<noteq> g y) (zip xs ys))"
      using lp ll assms(3) by simp
  next
    fix i assume "i < length (map (\<lambda>(p, l). p \<noteq> l) (zip ps ls))"
    then have i: "i < length xs" "i < length ys" "i < length ps" "i < length ls"
      using lp ll assms(3) by simp_all
    have "Inr (ps ! i) = f (xs ! i)" using assms(1) i by (metis nth_map)
    moreover have "Inr (ls ! i) = g (ys ! i)" using assms(2) i by (metis nth_map)
    ultimately show "map (\<lambda>(p, l). p \<noteq> l) (zip ps ls) ! i = map (\<lambda>(x, y). f x \<noteq> g y) (zip xs ys) ! i"
      using i by (simp, metis sum.inject(2))
  qed
  then show ?thesis by simp
qed

lemma number_errors_classification:
  assumes crit: "criterion m = CrossEntropyLoss"
    and fw: "forward m keep qt ql = Inr logits"
    and len: "length logits = length labels"
    and ne: "\<forall>row\<in>set logits. row \<noteq> []"
    and ai: "answer_indices td = Some ai"
    and sub: "set labels \<subseteq> set ai"
  shows "number_errors keep qt ql labels td m = Inr (classification_errors ai logits labels)"
proof -
  from argmax_all[OF ne] obtain ps where ps: "sequence_err (map argmax logits) = Inr ps"
      "map Inr ps = map argmax logits" by blast
  from py_index_all_map[OF sub] obtain ids where ids:
      "sequence_err (map (py_index ai) labels) = Inr ids"
      "map Inr ids = map (py_index ai) labels" by blast
  have l: "length ps = length ids"
    using ps(2) ids(2) len by (metis length_map)
  have "count_true (map (\<lambda>(p, l). p \<noteq> l) (zip ps ids)) = classification_errors ai logits labels"
    unfolding classification_errors_def
    by (rule count_mismatch_Inr[OF ps(2) ids(2) len])
  then show ?thesis
    using crit fw ps(1) ids(1) ai l
    by (simp add: number_errors_def attr_def broadcast2_def)
qed

lemma nearest_answer_ok:
  assumes "index_rows ix \<noteq> []" "answers_qd td = Some ans" "length ans = length (index_rows ix)"
  shows "\<exists>a. nearest_answer td (search_one ix 1 q) = Inr a"
proof -
  from search_one_hit[OF assms(1)] obtain i where
    i: "search_one ix 1 q = [int i]" "i < length (index_rows ix)" by blast
  then show ?thesis using assms(2,3)
    by (simp add: nearest_answer_def py_getitem_def attr_def)
qed

lemma nearest_all:
  assumes "index_rows ix \<noteq> []" "answers_qd td = Some ans" "length ans = length (index_rows ix)"
  shows "\<exists>preds. sequence_err (map (nearest_answer td) (map (search_one ix 1) reps)) = Inr preds
      \<and> map Inr preds = map (\<lambda>rep. nearest_answer td (search_one ix 1 rep)) reps"
proof (induction reps)
  case Nil
  then show ?case by simp
next
  case (Cons r rs)
  then obtain preds where p: "sequence_err (map (nearest_answer td) (map (search_one ix 1) rs)) = Inr preds"
      "map Inr preds = map (\<lambda>rep. nearest_answer td (search_one ix 1 rep)) rs" by blast
  from nearest_answer_ok[OF assms] obtain a where "nearest_answer td (search_one ix 1 r) = Inr a"
    by blast
  with p show ?case by simp
qed

lemma count_mismatch_zip:
  assumes "map Inr preds = map f reps"
  shows "count_true (map (\<lambda>(pred, label). pred \<noteq> label) (zip preds labels))
       = count_true (map (\<lambda>(rep, label). f rep \<noteq> Inr label) (zip reps labels))"
proof -
  have lp: "length preds = length reps" using assms by (metis length_map)
  have "map (\<lambda>(pred, label). pred \<noteq> label) (zip preds labels)
      = map (\<lambda>(rep, label). f rep \<noteq> Inr label) (zip reps labels)"
  proof (intro nth_equalityI)
    show "length (map (\<lambda>(pred, label). pred \<noteq> label) (zip preds labels))
        = length (map (\<lambda>(rep, label). f rep \<noteq> Inr label) (zip reps labels))"
      using lp by simp
  next
    fix i assume "i < length (map (\<lambda>(pred, label). pred \<noteq> label) (zip preds labels))"
    then have i: "i < length preds" "i < length reps" "i < length labels" using lp by simp_all
    have "Inr (preds ! i) = f (reps ! i)" using assms i by (metis nth_map)
    then show "map (\<lambda>(pred, label). pred \<noteq> label) (zip preds labels) ! i
        = map (\<lambda>(rep, label). f rep \<noteq> Inr label) (zip reps labels) ! i"
      using i by (simp, metis sum.inject(2))
  qed
  then show ?thesis by simp
qed

lemma number_errors_ranking:
  assumes crit: "criterion m = MarginRankingLoss margin"
    and fw: "forward m keep qt ql = Inr reps"
    and lk: "lookup td = Some ix"
    and dims: "\<forall>r\<in>set reps. length r = index_d ix"
    and rows: "index_rows ix \<noteq> []"
    and ans: "answers_qd td = Some ans" "length ans = length (index_rows ix)"
  shows "number_errors keep qt ql labels td m = Inr (ranking_errors td ix reps labels)"
proof -
  have s: "faiss_search ix reps 1 = Inr (map (search_one ix 1) reps)"
    using dims by (simp add: faiss_search_def)
  from nearest_all[OF rows ans] obtain preds where p:
    "sequence_err (map (nearest_answer td) (map (search_one ix 1) reps)) = Inr preds"
    "map Inr preds = map (\<lambda>rep. nearest_answer td (search_one ix 1 rep)) reps" by blast
  have g: "get_batch_nearest td reps 1 True False = Inr (Answers preds)"
    using lk s p(1) by (simp add: get_batch_nearest_def)
  have "count_true (map (\<lambda>(pred, label). pred \<noteq> label) (zip preds labels))
      = ranking_errors td ix reps labels"
    unfolding ranking_errors_def by (rule count_mismatch_zip[OF p(2)])
  then show ?thesis using crit fw g by (simp add: number_errors_def)
qed

text \<open>
  Claim C8. Let the forward pass in evaluation mode return the matrix \<open>fw b\<close> for every
  batch \<open>b\<close> of the data loader. In classification mode (every gold label in the answer
  list, one non-empty row of logits per label) and in ranking mode (index built over a
  non-empty store of the index's dimension, one stored answer per row) \<^verbatim>\<open>evaluate\<close>
  returns exactly \<open>1 - errors / total\<close> when the loader has examples, the errors being
  the mismatches of arg-max position and label position, or of nearest stored answer and
  label; with no examples it raises ZeroDivisionError.
\<close>

theorem evaluate_accuracy:
  fixes fw :: "q_batch \<Rightarrow> matrix"
  assumes mode:
    "(criterion m = CrossEntropyLoss \<and> answer_indices td = Some ai
        \<and> (\<forall>b\<in>set loader. length (fw b) = length (answers b)
              \<and> (\<forall>row\<in>set (fw b). row \<noteq> []) \<and> set (answers b) \<subseteq> set ai))
     \<or> ((\<exists>margin. criterion m = MarginRankingLoss margin) \<and> lookup td = Some ix
        \<and> index_rows ix \<noteq> [] \<and> answers_qd td = Some ans
        \<and> length ans = length (index_rows ix)
        \<and> (\<forall>b\<in>set loader. \<forall>r\<in>set (fw b). length r = index_d ix))"
    and fwd: "\<forall>b\<in>set loader.
       forward (eval_mode m) (\<lambda>i j. True) (question_text b) (question_len b) = Inr (fw b)"
  defines "errors \<equiv> \<lambda>b. if criterion m = CrossEntropyLoss
                          then classification_errors ai (fw b) (answers b)
                          else ranking_errors td ix (fw b) (answers b)"
  shows "evaluate loader m td =
     (if total_examples loader = 0 then Inl ZeroDivisionError
      else Inr (1 - real (sum_list (map errors loader)) / real (total_examples loader)))"
proof -
  have c: "criterion (eval_mode m) = criterion m" by (simp add: eval_mode_def)
  have "\<forall>b\<in>set loader.
     number_errors (\<lambda>i j. True) (question_text b) (question_len b) (answers b) td (eval_mode m)
       = Inr (errors b)"
  proof
    fix b assume b: "b \<in> set loader"
    from mode show "number_errors (\<lambda>i j. True) (question_text b) (question_len b) (answers b)
        td (eval_mode m) = Inr (errors b)"
    proof
      assume h: "criterion m = CrossEntropyLoss \<and> answer_indices td = Some ai
        \<and> (\<forall>b\<in>set loader. length (fw b) = length (answers b)
              \<and> (\<forall>row\<in>set (fw b). row \<noteq> []) \<and> set (answers b) \<subseteq> set ai)"
      then have "number_errors (\<lambda>i j. True) (question_text b) (question_len b) (answers b)
          td (eval_mode m) = Inr (classification_errors ai (fw b) (answers b))"
        using b fwd c by (intro number_errors_classification) auto
      with h show ?thesis by (simp add: errors_def)
    next
      assume h: "(\<exists>margin. criterion m = MarginRankingLoss margin) \<and> lookup td = Some ix
        \<and> index_rows ix \<noteq> [] \<and> answers_qd td = Some ans
        \<and> length ans = length (index_rows ix)
        \<and> (\<forall>b\<in>set loader. \<forall>r\<in>set (fw b). length r = index_d ix)"
      then obtain margin where mg: "criterion m = MarginRankingLoss margin" by blast
      have "number_errors (\<lambda>i j. True) (question_text b) (question_len b) (answers b)
          td (eval_mode m) = Inr (ranking_errors td ix (fw b) (answers b))"
        using h b fwd c mg by (intro number_errors_ranking[where margin = margin and ans = ans]) auto
      with mg show ?thesis by (simp add: errors_def)
    qed
  qed
  from evaluate_loop_sum[OF this, of 0 0] show ?thesis
    by (simp add: evaluate_def)
qed

lemma tiny_forward:
  "forward (eval_mode (tiny_model c)) keep [[1, 0], [2, 1]] [1, 2] = Inr [[2, 1], [3 / 2, 3 / 2]]"
  by (simp add: forward_def embedding_def embedding_row_def tiny_model_def eval_mode_def
      average_def broadcast2_def vsum_def zeros_def network_def nn_Linear_def dot_def ReLU_def
      Dropout_def numeral_2_eq_2)

lemma tiny_class_errors:
  "classification_errors [''a'', ''b''] [[2, 1], [3 / 2, 3 / 2]] [''a'', ''b''] = 1"
  by (simp add: classification_errors_def count_true_def argmax_def)

lemma tiny_search:
  "search_one \<lparr>index_d = 2, index_rows = [[2, 1], [1, 2]]\<rparr> (Suc 0) [2, 1] = [0]"
  "search_one \<lparr>index_d = 2, index_rows = [[2, 1], [1, 2]]\<rparr> (Suc 0) [3 / 2, 3 / 2] = [0]"
  by (simp_all add: search_one_def sq_dist_def upt_rec[of 0] power2_eq_square)

lemma tiny_rank_errors:
  "ranking_errors (tiny_trained c) \<lparr>index_d = 2, index_rows = [[2, 1], [1, 2]]\<rparr>
     [[2, 1], [3 / 2, 3 / 2]] [''a'', ''b''] = 1"
  by (simp add: ranking_errors_def count_true_def tiny_search nearest_answer_def
      py_getitem_def attr_def tiny_trained_def)

theorem evaluate_accuracy_witness:
  "evaluate [tiny_batch] (tiny_model CrossEntropyLoss) (tiny_trained ''CrossEntropyLoss'')
     = Inr (1 / 2)
   \<and> evaluate [tiny_batch] (tiny_model (MarginRankingLoss 0)) (tiny_trained ''MarginRankingLoss'')
     = Inr (1 / 2)
   \<and> evaluate [] (tiny_model CrossEntropyLoss) (tiny_trained ''CrossEntropyLoss'')
     = Inl ZeroDivisionError"
proof -
  let ?fw = "\<lambda>b :: q_batch. [[2, 1], [3 / 2, 3 / 2 :: real]]"
  let ?ix = "\<lparr>index_d = 2, index_rows = [[2, 1], [1, 2 :: real]]\<rparr>"
  have fwd: "\<forall>b\<in>set [tiny_batch].
       forward (eval_mode (tiny_model c)) (\<lambda>i j. True) (question_text b) (question_len b)
         = Inr (?fw b)" for c
    using tiny_forward[of c "\<lambda>i j. True"] by (simp add: tiny_batch_def)
  have m1: "(criterion (tiny_model CrossEntropyLoss) = CrossEntropyLoss
        \<and> answer_indices (tiny_trained ''CrossEntropyLoss'') = Some [''a'', ''b'']
        \<and> (\<forall>b\<in>set [tiny_batch]. length (?fw b) = length (answers b)
              \<and> (\<forall>row\<in>set (?fw b). row \<noteq> []) \<and> set (answers b) \<subseteq> set [''a'', ''b'']))
     \<or> ((\<exists>margin. criterion (tiny_model CrossEntropyLoss) = MarginRankingLoss margin)
        \<and> lookup (tiny_trained ''CrossEntropyLoss'') = Some ?ix
        \<and> index_rows ?ix \<noteq> [] \<and> answers_qd (tiny_trained ''CrossEntropyLoss'') = Some [''a'', ''b'']
        \<and> length [''a'', ''b''] = length (index_rows ?ix)
        \<and> (\<forall>b\<in>set [tiny_batch]. \<forall>r\<in>set (?fw b). length r = index_d ?ix))"
    by (simp add: tiny_model_def tiny_trained_def tiny_batch_def)
  have m2: "(criterion (tiny_model (MarginRankingLoss 0)) = CrossEntropyLoss
        \<and> answer_indices (tiny_trained ''MarginRankingLoss'') = Some [''a'', ''b'']
        \<and> (\<forall>b\<in>set [tiny_batch]. length (?fw b) = length (answers b)
              \<and> (\<forall>row\<in>set (?fw b). row \<noteq> []) \<and> set (answers b) \<subseteq> set [''a'', ''b'']))
     \<or> ((\<exists>margin. criterion (tiny_model (MarginRankingLoss 0)) = MarginRankingLoss margin)
        \<and> lookup (tiny_trained ''MarginRankingLoss'') = Some ?ix
        \<and> index_rows ?ix \<noteq> [] \<and> answers_qd (tiny_trained ''MarginRankingLoss'') = Some [''a'', ''b'']
        \<and> length [''a'', ''b''] = length (index_rows ?ix)
        \<and> (\<forall>b\<in>set [tiny_batch]. \<forall>r\<in>set (?fw b). length r = index_d ?ix))"
    by (simp add: tiny_model_def tiny_trained_def tiny_batch_def)
  have e1: "evaluate [tiny_batch] (tiny_model CrossEntropyLoss) (tiny_trained ''CrossEntropyLoss'')
     = Inr (1 / 2)"
    using evaluate_accuracy[OF m1 fwd]
    by (simp add: total_examples_def tiny_batch_def tiny_class_errors tiny_model_def)
  have e2: "evaluate [tiny_batch] (tiny_model (MarginRankingLoss 0))
       (tiny_trained ''MarginRankingLoss'') = Inr (1 / 2)"
    using evaluate_accuracy[OF m2 fwd]
    by (simp add: total_examples_def tiny_batch_def tiny_rank_errors tiny_model_def)
  have e3: "evaluate [] (tiny_model CrossEntropyLoss) (tiny_trained ''CrossEntropyLoss'')
     = Inl ZeroDivisionError"
    using evaluate_accuracy[of "tiny_model CrossEntropyLoss" "tiny_trained ''CrossEntropyLoss''"
        "[''a'', ''b'']" "[]" ?fw]
    by (simp add: total_examples_def tiny_model_def tiny_trained_def)
  show ?thesis using e1 e2 e3 by simp
qed

subsection \<open>Saving and loading\<close>

lemma network_cong:
  assumes "emb_dim m1 = emb_dim m2" "n_hidden_units m1 = n_hidden_units m2"
    "linear1_weight m1 = linear1_weight m2" "linear1_bias m1 = linear1_bias m2"
    "linear2_weight m1 = linear2_weight m2" "linear2_bias m1 = linear2_bias m2"
    "training m1 = training m2" "nn_dropout m1 = nn_dropout m2"
  shows "network m1 = network m2"
  by (intro ext) (unfold network_def Dropout_def assms, rule refl)

lemma forward_cong:
  assumes "embeddings m1 = embeddings m2"
    "emb_dim m1 = emb_dim m2" "n_hidden_units m1 = n_hidden_units m2"
    "linear1_weight m1 = linear1_weight m2" "linear1_bias m1 = linear1_bias m2"
    "linear2_weight m1 = linear2_weight m2" "linear2_bias m1 = linear2_bias m2"
    "training m1 = training m2" "nn_dropout m1 = nn_dropout m2"
  shows "forward m1 = forward m2"
proof -
  have n: "network m1 = network m2" by (rule network_cong) (use assms in auto)
  show ?thesis
    by (intro ext) (unfold forward_def average_def assms(1,2) n, rule refl)
qed

lemma guesser_call_cong:
  assumes "dan_model g1 = Some m1" "dan_model g2 = Some m2"
    "forward (eval_mode m1) = forward (eval_mode m2)"
    "training_data g1 = Some t1" "training_data g2 = Some t2"
    "vocab t1 = vocab t2" "use_contrastive_examples t1 = use_contrastive_examples t2"
    "lookup t1 = lookup t2" "answers_qd t1 = answers_qd t2"
    "answer_indices t1 = answer_indices t2"
  shows "guesser_call tokenizer g1 q k = guesser_call tokenizer g2 q k"
  by (unfold guesser_call_def get_nearest_def Let_def attr_def assms option.case sum.case, rule refl)

lemma guesser_call_cong_classification:
  assumes "dan_model g1 = Some m1" "dan_model g2 = Some m2"
    "forward (eval_mode m1) = forward (eval_mode m2)"
    "training_data g1 = Some t1" "training_data g2 = Some t2"
    "vocab t1 = vocab t2"
    "use_contrastive_examples t1 = False" "use_contrastive_examples t2 = False"
    "answer_indices t1 = answer_indices t2"
  shows "guesser_call tokenizer g1 q k = guesser_call tokenizer g2 q k"
  by (unfold guesser_call_def Let_def attr_def assms option.case sum.case if_False, rule refl)

lemma paths_differ: "model_path name \<noteq> data_path name"
  by (simp add: model_path_def data_path_def)

lemma map_length_tensor_of: "map length (tensor_of r c g) = replicate r c"
  by (simp add: tensor_of_def map_replicate_const[symmetric] comp_def)
     (metis length_upt map_replicate_const minus_nat.diff_0)

lemma criterion_name_getattr [simp]:
  "criterion_name (nn_getattr_call n) = n"
  by (simp add: nn_getattr_call_def)

lemma nn_Embedding_shape:
  "0 < v \<Longrightarrow> \<exists>w. nn_Embedding v d 0 g = Inr w \<and> map length w = replicate v d"
  by (simp add: nn_Embedding_def map_update map_length_tensor_of zeros_def)
     (metis length_replicate list_update_id nth_replicate)

lemma DanModel_init_default:
  assumes "constructed_shapes m"
  shows "\<exists>m0. DanModel_init globals rnd (nn_getattr_call (criterion_name (criterion m)))
            (vocab_size m) (num_answers m) (emb_dim m) (n_hidden_units m) (nn_dropout m) ''''
          = Inr m0
     \<and> emb_dim m0 = emb_dim m \<and> n_hidden_units m0 = n_hidden_units m
     \<and> nn_dropout m0 = nn_dropout m
     \<and> map length (embeddings m0) = map length (embeddings m)
     \<and> map length (linear1_weight m0) = map length (linear1_weight m)
     \<and> length (linear1_bias m0) = length (linear1_bias m)
     \<and> map length (linear2_weight m0) = map length (linear2_weight m)
     \<and> length (linear2_bias m0) = length (linear2_bias m)"
proof -
  from assms have v: "0 < vocab_size m" by (simp add: constructed_shapes_def)
  from nn_Embedding_shape[OF v] obtain w where
    w: "nn_Embedding (vocab_size m) (emb_dim m) 0 (emb_init rnd) = Inr w"
       "map length w = replicate (vocab_size m) (emb_dim m)" by blast
  from assms consider
      (rank) "criterion_name (criterion m) = ''MarginRankingLoss''"
    | (cls) "criterion_name (criterion m) = ''CrossEntropyLoss''" "0 \<le> num_answers m"
    by (auto simp: constructed_shapes_def)
  then show ?thesis
  proof cases
    case rank
    then show ?thesis using assms w
      by (simp add: DanModel_init_def initialize_parameters_def constructed_shapes_def
          out_features_def map_length_tensor_of)
  next
    case cls
    then show ?thesis using assms w
      by (simp add: DanModel_init_def initialize_parameters_def constructed_shapes_def
          out_features_def map_length_tensor_of)
  qed
qed

lemma load_state_dict_ok:
  assumes "map length (embeddings m0) = map length (embeddings m)"
    "map length (linear1_weight m0) = map length (linear1_weight m)"
    "length (linear1_bias m0) = length (linear1_bias m)"
    "map length (linear2_weight m0) = map length (linear2_weight m)"
    "length (linear2_bias m0) = length (linear2_bias m)"
  shows "load_state_dict m0 (get_state_dict m) =
     Inr (m0\<lparr>embeddings := embeddings m,
             linear1_weight := linear1_weight m, linear1_bias := linear1_bias m,
             linear2_weight := linear2_weight m, linear2_bias := linear2_bias m\<rparr>)"
  using assms by (simp add: load_state_dict_def get_state_dict_def same_shape_def)

lemma refresh_index_fixed:
  assumes "refresh_index td = Inr td"
    "representations t2 = representations td" "dimension t2 = dimension td"
  shows "\<exists>t3. refresh_index t2 = Inr t3 \<and> lookup t3 = lookup td
     \<and> t3 = t2\<lparr>lookup := lookup td\<rparr>"
proof -
  from assms(1) obtain rows ix where
    r: "representations td = Some rows"
       "faiss_add \<lparr>index_d = dimension td, index_rows = []\<rparr> rows = Inr ix"
       "td\<lparr>lookup := Some ix\<rparr> = td"
    by (auto simp: refresh_index_def split: option.splits sum.splits)
  have "lookup td = lookup (td\<lparr>lookup := Some ix\<rparr>)" using r(3) by simp
  then have "lookup td = Some ix" by simp
  then show ?thesis using r assms(2,3) by (simp add: refresh_index_def)
qed

text \<open>
  Claim C9. Let \<open>g\<close> be a trained guesser: it has a model with the shapes its constructor
  gives, its data set was built from its own parameters, and in ranking mode the
  questions and answers are set and the index is the one \<^verbatim>\<open>refresh_index\<close> builds from
  the stored representations (as \<^verbatim>\<open>train_dan\<close> leaves it). In classification mode no
  data bundle of another session lies at the guesser's path. Then \<^verbatim>\<open>save\<close> succeeds,
  \<^verbatim>\<open>load\<close> into a fresh guesser with the same parameters succeeds, and the loaded
  guesser answers every question with every number of guesses exactly as \<open>g\<close> does.
\<close>

theorem save_load_roundtrip:
  assumes model: "dan_model g = Some m" and data: "training_data g = Some td"
    and shapes: "constructed_shapes m"
    and fname: "filename g = dan_guesser_filename (params g)"
    and mode: "use_contrastive_examples td
                 = (dan_guesser_criterion (params g) \<noteq> ''CrossEntropyLoss'')"
    and store: "use_contrastive_examples td \<longrightarrow>
                  questions td \<noteq> None \<and> answers_qd td \<noteq> None \<and> refresh_index td = Inr td"
    and fresh: "\<not> use_contrastive_examples td \<longrightarrow> dir (data_path (filename g)) = None"
  shows "\<exists>dir' g'. save g dir = Inr dir'
           \<and> load globals rnd (DanGuesser_init (params g)) dir' = Inr g'
           \<and> (\<forall>question n_guesses.
                 guesser_call tokenizer g' question n_guesses
                   = guesser_call tokenizer g question n_guesses)"
proof -
  let ?fresh = "DanGuesser_init (params g)"
  have ff: "filename ?fresh = filename g" "params ?fresh = params g"
    by (simp_all add: DanGuesser_init_def fname)
  note pd = paths_differ[of "filename g"] paths_differ[of "filename g", symmetric]
  let ?ck = "\<lparr>ck_model_state_dict = get_state_dict m, ck_vocab = vocab td,
             ck_answer_indices = answer_indices td, ck_dimension = dimension td,
             ck_criterion = criterion_name (criterion m), ck_vocab_size = vocab_size m,
             ck_emb_dim = emb_dim m, ck_n_hidden_units = n_hidden_units m,
             ck_nn_dropout = nn_dropout m, ck_num_answers = num_answers m\<rparr>"
  let ?dir1 = "dir(model_path (filename g) \<mapsto> ModelFile ?ck)"
  let ?t0 = "(QuestionData_init (params g))\<lparr>vocab := vocab td,
               answer_indices := answer_indices td, dimension := dimension td\<rparr>"
  from DanModel_init_default[OF shapes, of globals rnd] obtain m0 where
    m0: "DanModel_init globals rnd (nn_getattr_call (criterion_name (criterion m)))
            (vocab_size m) (num_answers m) (emb_dim m) (n_hidden_units m) (nn_dropout m) ''''
          = Inr m0"
      "emb_dim m0 = emb_dim m" "n_hidden_units m0 = n_hidden_units m"
      "nn_dropout m0 = nn_dropout m"
      "map length (embeddings m0) = map length (embeddings m)"
      "map length (linear1_weight m0) = map length (linear1_weight m)"
      "length (linear1_bias m0) = length (linear1_bias m)"
      "map length (linear2_weight m0) = map length (linear2_weight m)"
      "length (linear2_bias m0) = length (linear2_bias m)"
    by blast
  let ?m1 = "m0\<lparr>embeddings := embeddings m,
             linear1_weight := linear1_weight m, linear1_bias := linear1_bias m,
             linear2_weight := linear2_weight m, linear2_bias := linear2_bias m\<rparr>"
  have ld: "load_state_dict m0 (get_state_dict m) = Inr ?m1"
    by (rule load_state_dict_ok[OF m0(5-9)])
  have fw: "forward (eval_mode (eval_mode ?m1)) = forward (eval_mode m)"
    by (rule forward_cong) (simp_all add: eval_mode_def m0)
  show ?thesis
  proof (cases "use_contrastive_examples td")
    case False
    with fresh have nodata: "dir (data_path (filename g)) = None" by simp
    have sv: "save g dir = Inr ?dir1"
      using model data False by (simp add: save_def attr_def Let_def)
    have nd: "?dir1 (data_path (filename g)) = None"
      using nodata paths_differ[of "filename g"] by simp
    let ?g' = "?fresh\<lparr>dan_model := Some (eval_mode ?m1), training_data := Some ?t0\<rparr>"
    have lo: "load globals rnd ?fresh ?dir1 = Inr ?g'"
      using m0(1) ld nd by (simp add: load_def ff Let_def pd)
    have "guesser_call tokenizer ?g' q k = guesser_call tokenizer g q k" for q k
      by (rule guesser_call_cong_classification[where ?m1.0 = "eval_mode ?m1" and ?m2.0 = m
              and ?t1.0 = ?t0 and ?t2.0 = td])
         (use model data fw mode False in
            \<open>simp_all add: QuestionData_init_def DanGuesser_init_def\<close>)
    with sv lo show ?thesis by blast
  next
    case True
    with store obtain qs ans where
      qa: "questions td = Some qs" "answers_qd td = Some ans" "refresh_index td = Inr td"
      by auto
    let ?dc = "\<lparr>dc_representations = representations td, dc_questions = qs,
                dc_answers = ans\<rparr>"
    let ?dir2 = "?dir1(data_path (filename g) \<mapsto> DataFile ?dc)"
    have sv: "save g dir = Inr ?dir2"
      using model data True qa by (simp add: save_def attr_def Let_def)
    have mf: "?dir2 (model_path (filename g)) = Some (ModelFile ?ck)"
      using paths_differ[of "filename g"] by simp
    have df: "?dir2 (data_path (filename g)) = Some (DataFile ?dc)" by simp
    let ?t1 = "?t0\<lparr>representations := representations td, questions := Some qs,
                   answers_qd := Some ans\<rparr>"
    from refresh_index_fixed[OF qa(3), of ?t1] obtain t3 where
      t3: "refresh_index ?t1 = Inr t3" "t3 = ?t1\<lparr>lookup := lookup td\<rparr>"
      by auto
    let ?g' = "?fresh\<lparr>dan_model := Some (eval_mode ?m1), training_data := Some t3\<rparr>"
    have lo: "load globals rnd ?fresh ?dir2 = Inr ?g'"
      using m0(1) ld t3(1)
      by (simp add: load_def Let_def ff pd)
    have "guesser_call tokenizer ?g' q k = guesser_call tokenizer g q k" for q k
      by (rule guesser_call_cong[where ?m1.0 = "eval_mode ?m1" and ?m2.0 = m
              and ?t1.0 = t3 and ?t2.0 = td])
         (use model data fw mode True qa t3(2) in
            \<open>simp_all add: QuestionData_init_def DanGuesser_init_def\<close>)
    with sv lo show ?thesis by blast
  qed
qed

lemma tiny_shapes: "constructed_shapes (tiny_model CrossEntropyLoss)"
  "constructed_shapes (tiny_model (MarginRankingLoss 0))"
  by (simp_all add: constructed_shapes_def tiny_model_def out_features_def numeral_2_eq_2
      numeral_3_eq_3)

lemma tiny_refresh:
  "refresh_index (tiny_trained c) = Inr (tiny_trained c)"
  by (simp add: refresh_index_def tiny_trained_def faiss_add_def tiny_data_def
      QuestionData_init_def tiny_parameters_def)

lemma tiny_call_classification:
  "guesser_call whole_tokenizer (tiny_guesser CrossEntropyLoss) ''x'' 2 = Inr [''a'', ''b'']"
  by (simp add: guesser_call_def tiny_guesser_def DanGuesser_init_def attr_def tiny_trained_def
      vectorize_def whole_tokenizer_def vocab_getitem_def py_getitem_def
      forward_def embedding_def embedding_row_def tiny_model_def eval_mode_def
      average_def broadcast2_def vsum_def zeros_def network_def nn_Linear_def dot_def ReLU_def
      Dropout_def numeral_2_eq_2 topk_def upt_rec[of 0] tiny_data_def QuestionData_init_def
      tiny_parameters_def)

lemma tiny_call_ranking:
  "guesser_call whole_tokenizer (tiny_guesser (MarginRankingLoss 0)) ''x'' 2 = Inr [''a'', ''b'']"
  by (simp add: guesser_call_def tiny_guesser_def DanGuesser_init_def attr_def tiny_trained_def
      vectorize_def whole_tokenizer_def vocab_getitem_def py_getitem_def
      forward_def embedding_def embedding_row_def tiny_model_def eval_mode_def
      average_def broadcast2_def vsum_def zeros_def network_def nn_Linear_def dot_def ReLU_def
      Dropout_def numeral_2_eq_2 upt_rec[of 0] tiny_data_def QuestionData_init_def
      tiny_parameters_def get_nearest_def faiss_search_def search_one_def sq_dist_def
      power2_eq_square)

theorem save_load_roundtrip_witness:
  "(\<exists>dir' g'. save (tiny_guesser CrossEntropyLoss) Map.empty = Inr dir'
       \<and> load module_globals zero_init
             (DanGuesser_init (params (tiny_guesser CrossEntropyLoss))) dir' = Inr g'
       \<and> guesser_call whole_tokenizer g' ''x'' 2 = Inr [''a'', ''b''])
   \<and> (\<exists>dir' g'. save (tiny_guesser (MarginRankingLoss 0)) Map.empty = Inr dir'
       \<and> load module_globals zero_init
             (DanGuesser_init (params (tiny_guesser (MarginRankingLoss 0)))) dir' = Inr g'
       \<and> guesser_call whole_tokenizer g' ''x'' 2 = Inr [''a'', ''b''])"
proof -
  have 1: "\<exists>dir' g'. save (tiny_guesser c) Map.empty = Inr dir'
       \<and> load module_globals zero_init (DanGuesser_init (params (tiny_guesser c))) dir' = Inr g'
       \<and> (\<forall>question n_guesses.
             guesser_call whole_tokenizer g' question n_guesses
               = guesser_call whole_tokenizer (tiny_guesser c) question n_guesses)"
    if "constructed_shapes (tiny_model c)" for c
  proof (rule save_load_roundtrip[where m = "tiny_model c"
        and td = "tiny_trained (criterion_name c)"])
    show "dan_model (tiny_guesser c) = Some (tiny_model c)"
      by (simp add: tiny_guesser_def)
    show "training_data (tiny_guesser c) = Some (tiny_trained (criterion_name c))"
      by (simp add: tiny_guesser_def)
    show "constructed_shapes (tiny_model c)" by (rule that)
    show "filename (tiny_guesser c) = dan_guesser_filename (params (tiny_guesser c))"
      by (simp add: tiny_guesser_def DanGuesser_init_def)
    show "use_contrastive_examples (tiny_trained (criterion_name c))
        = (dan_guesser_criterion (params (tiny_guesser c)) \<noteq> ''CrossEntropyLoss'')"
      by (simp add: tiny_guesser_def DanGuesser_init_def tiny_trained_def tiny_data_def
          QuestionData_init_def tiny_parameters_def)
    show "use_contrastive_examples (tiny_trained (criterion_name c)) \<longrightarrow>
        questions (tiny_trained (criterion_name c)) \<noteq> None
        \<and> answers_qd (tiny_trained (criterion_name c)) \<noteq> None
        \<and> refresh_index (tiny_trained (criterion_name c)) = Inr (tiny_trained (criterion_name c))"
      by (simp add: tiny_refresh) (simp add: tiny_trained_def)
    show "\<not> use_contrastive_examples (tiny_trained (criterion_name c)) \<longrightarrow>
        Map.empty (data_path (filename (tiny_guesser c))) = None"
      by simp
  qed
  from 1[OF tiny_shapes(1)] 1[OF tiny_shapes(2)] show ?thesis
    by (metis tiny_call_classification tiny_call_ranking)
qed

end
